theory Spec2Isabelle
  imports Complex_Main
begin

section \<open>Cosmic Rocket League: the physics, hazard and match core\<close>

text \<open>
  A shallow embedding of \<^verbatim>\<open>src/rocket-league-5.py\<close>. Conventions:
  \<^item> a Python \<^verbatim>\<open>float\<close> is a \<^typ>\<open>real\<close>: arithmetic is exact, rounding and
    overflow of IEEE doubles are not modelled. Integer-valued fields that the code mixes
    freely with floats (pad positions, radii) are reals as well; values that stay integers
    (scores, the combo counter, goal counters, pixel coordinates) are \<^typ>\<open>int\<close>;
  \<^item> a dataclass or class is a record, its fields prefixed by the class they belong to
    (record fields share one name space in HOL);
  \<^item> a method that mutates its object returns the updated object; a method that mutates
    two objects returns both;
  \<^item> a \<^verbatim>\<open>for\<close> loop over a list is a \<open>fold\<close> or a primitive recursion over it;
  \<^item> drawing, particles and advisory messages have no effect on the state modelled here
    and are left out.
\<close>

subsection \<open>Configuration (lines 22-32)\<close>

definition SCREEN_W :: int where "SCREEN_W = 1280"
definition SCREEN_H :: int where "SCREEN_H = 720"
definition BALL_RADIUS :: int where "BALL_RADIUS = 16"
definition CAR_W :: int where "CAR_W = 36"
definition CAR_H :: int where "CAR_H = 22"
definition GOAL_W :: int where "GOAL_W = 22"
definition GOAL_H :: int where "GOAL_H = 150"
definition BOOST_MAX :: real where "BOOST_MAX = 100"
definition BOOST_RECHARGE :: real where "BOOST_RECHARGE = 8"
definition BOOST_COST :: real where "BOOST_COST = 30"
definition BOOST_SPEED :: real where "BOOST_SPEED = 520"
definition MAX_SPEED :: real where "MAX_SPEED = 380"

subsection \<open>Level table (lines 35-111)\<close>

type_synonym colour = "int \<times> int \<times> int"

record level_cfg =
  cfg_id :: int
  cfg_accent :: colour
  cfg_accent2 :: colour
  cfg_anomaly_types :: "string list"
  cfg_max_anomalies :: nat
  cfg_max_asteroids :: nat
  cfg_hazards :: "string list"

definition LEVELS :: "level_cfg list" where
  "LEVELS =
    [\<lparr>cfg_id = 0, cfg_accent = (180, 200, 255), cfg_accent2 = (100, 120, 200),
      cfg_anomaly_types = [''repulsor''], cfg_max_anomalies = 1, cfg_max_asteroids = 0,
      cfg_hazards = []\<rparr>,
     \<lparr>cfg_id = 1, cfg_accent = (0, 255, 200), cfg_accent2 = (200, 0, 255),
      cfg_anomaly_types = [''nebula'', ''repulsor''], cfg_max_anomalies = 3,
      cfg_max_asteroids = 0, cfg_hazards = [''crystal_shards'']\<rparr>,
     \<lparr>cfg_id = 2, cfg_accent = (255, 140, 40), cfg_accent2 = (160, 80, 20),
      cfg_anomaly_types = [''repulsor''], cfg_max_anomalies = 2, cfg_max_asteroids = 5,
      cfg_hazards = [''spinning_rocks'']\<rparr>,
     \<lparr>cfg_id = 3, cfg_accent = (255, 40, 80), cfg_accent2 = (180, 0, 80),
      cfg_anomaly_types = [''black_hole''], cfg_max_anomalies = 2, cfg_max_asteroids = 2,
      cfg_hazards = [''gravity_corridors'']\<rparr>,
     \<lparr>cfg_id = 4, cfg_accent = (0, 240, 255), cfg_accent2 = (255, 240, 0),
      cfg_anomaly_types = [''repulsor'', ''nebula''], cfg_max_anomalies = 2,
      cfg_max_asteroids = 1, cfg_hazards = [''pulse_rings'', ''lightning_nodes'']\<rparr>]"

subsection \<open>Math helpers (lines 114-119)\<close>

definition v2_len :: "real \<times> real \<Rightarrow> real" where
  "v2_len v = sqrt ((fst v)\<^sup>2 + (snd v)\<^sup>2)"

definition v2_norm :: "real \<times> real \<Rightarrow> real \<times> real" where
  "v2_norm v = (let l = v2_len v in if l > 0.001 then (fst v / l, snd v / l) else (0, 0))"

definition lerp :: "real \<Rightarrow> real \<Rightarrow> real \<Rightarrow> real" where
  "lerp a b t = a + (b - a) * t"

definition clamp :: "real \<Rightarrow> real \<Rightarrow> real \<Rightarrow> real" where
  "clamp v lo hi = max lo (min hi v)"

subsection \<open>Arena objects (lines 169-603)\<close>

record CrystalShard =
  cs_x :: real
  cs_y :: real
  cs_angle :: real
  cs_size :: real
  cs_spin :: real

record GravityCorridor =
  gc_x :: real
  gc_y :: real
  gc_width :: real
  gc_height :: real
  gc_strength :: real
  gc_direction :: real

record PulseRing =
  pr_cx :: real
  pr_cy :: real
  pr_radius :: real
  pr_max_radius :: real
  pr_speed :: real
  pr_color :: colour

record LightningNode =
  ln_x :: real
  ln_y :: real
  ln_timer :: real
  ln_active :: bool
  ln_radius :: real

record GravityAnomaly =
  ga_x :: real
  ga_y :: real
  ga_radius :: real
  ga_strength :: real
  ga_kind :: string

record BoostPad =
  bp_x :: real
  bp_y :: real
  bp_radius :: real
  bp_active :: bool
  bp_cooldown :: real

record MovingAsteroid =
  ast_x :: real
  ast_y :: real
  ast_radius :: real
  ast_vx :: real
  ast_vy :: real
  ast_angle :: real
  ast_spin :: real
  ast_color :: colour

text \<open>\<^verbatim>\<open>BoostPad(px, py)\<close>: the dataclass defaults radius 22, active, cooldown 0.\<close>

definition BoostPad_new :: "real \<Rightarrow> real \<Rightarrow> BoostPad" where
  "BoostPad_new px py =
     \<lparr>bp_x = px, bp_y = py, bp_radius = 22, bp_active = True, bp_cooldown = 0\<rparr>"

text \<open>
  The arena layout. The fields \<^verbatim>\<open>rng\<close> and \<^verbatim>\<open>terrain\<close> (the generator after
  construction, and the baked background) are used by drawing only and are not part of the
  record.
\<close>

record LevelMap =
  lm_level_id :: int
  lm_cfg :: level_cfg
  lm_anomalies :: "GravityAnomaly list"
  lm_boost_pads :: "BoostPad list"
  lm_asteroids :: "MovingAsteroid list"
  lm_pulse_rings :: "PulseRing list"
  lm_lightning :: "LightningNode list"
  lm_crystal_shards :: "CrystalShard list"
  lm_gravity_corridors :: "GravityCorridor list"

subsection \<open>Field forces: \<^verbatim>\<open>LevelMap.apply_gravity\<close> (lines 735-759)\<close>

text \<open>One iteration of the loop over the anomalies, on the velocity \<open>(vx, vy)\<close>.\<close>

definition anomaly_step ::
  "real \<Rightarrow> real \<Rightarrow> real \<Rightarrow> real \<Rightarrow> GravityAnomaly \<Rightarrow> real \<times> real \<Rightarrow> real \<times> real" where
  "anomaly_step ox oy mass dt a v =
     (let vx = fst v; vy = snd v;
          dx = ga_x a - ox; dy = ga_y a - oy;
          dist = max 1 (sqrt (dx\<^sup>2 + dy\<^sup>2))
      in if ga_kind a = ''nebula'' then
           (if dist < ga_radius a then (vx * (1 - 0.35 * dt), vy * (1 - 0.35 * dt))
            else (vx, vy))
         else
           (if dist < ga_radius a * 3 then
              (let force = (ga_strength a / (dist powr 1.2)) * dt / mass;
                   nx = dx / dist; ny = dy / dist
               in (vx + nx * force, vy + ny * force))
            else (vx, vy)))"

text \<open>One iteration of the loop over the gravity corridors.\<close>

definition corridor_step ::
  "real \<Rightarrow> real \<Rightarrow> real \<Rightarrow> real \<Rightarrow> GravityCorridor \<Rightarrow> real \<times> real \<Rightarrow> real \<times> real" where
  "corridor_step ox oy mass dt gc v =
     (let vx = fst v; vy = snd v;
          dx = ox - gc_x gc; dy = oy - gc_y gc
      in if \<bar>dx\<bar> < gc_width gc / 2 \<and> \<bar>dy\<bar> < gc_height gc / 2 then
           (let nx = cos (gc_direction gc); ny = sin (gc_direction gc)
            in (vx + nx * gc_strength gc * dt / mass, vy + ny * gc_strength gc * dt / mass))
         else (vx, vy))"

definition apply_gravity ::
  "LevelMap \<Rightarrow> real \<Rightarrow> real \<Rightarrow> real \<Rightarrow> real \<Rightarrow> real \<Rightarrow> real \<Rightarrow> real \<times> real" where
  "apply_gravity lm ox oy vx vy mass dt =
     fold (corridor_step ox oy mass dt) (lm_gravity_corridors lm)
       (fold (anomaly_step ox oy mass dt) (lm_anomalies lm) (vx, vy))"

subsection \<open>Hazard contact: \<^verbatim>\<open>LevelMap.check_hazard_hit\<close> (lines 761-774)\<close>

text \<open>The two loops, each returning at its first hit.\<close>

fun lightning_hit :: "LightningNode list \<Rightarrow> real \<Rightarrow> real \<Rightarrow> real \<Rightarrow> bool" where
  "lightning_hit [] ox oy radius = False"
| "lightning_hit (node # nodes) ox oy radius =
     (if ln_active node then
        (let d = sqrt ((ox - ln_x node)\<^sup>2 + (oy - ln_y node)\<^sup>2)
         in if d < ln_radius node + radius then True else lightning_hit nodes ox oy radius)
      else lightning_hit nodes ox oy radius)"

fun pulse_hit :: "PulseRing list \<Rightarrow> real \<Rightarrow> real \<Rightarrow> real \<Rightarrow> bool" where
  "pulse_hit [] ox oy radius = False"
| "pulse_hit (pr # prs) ox oy radius =
     (let d = sqrt ((ox - pr_cx pr)\<^sup>2 + (oy - pr_cy pr)\<^sup>2)
      in if \<bar>d - pr_radius pr\<bar> < 10 + radius then True else pulse_hit prs ox oy radius)"

definition check_hazard_hit :: "LevelMap \<Rightarrow> real \<Rightarrow> real \<Rightarrow> real \<Rightarrow> bool" where
  "check_hazard_hit lm ox oy radius =
     (if lightning_hit (lm_lightning lm) ox oy radius then True
      else if pulse_hit (lm_pulse_rings lm) ox oy radius then True
      else False)"

subsection \<open>The car (lines 932-999)\<close>

record Car =
  car_x :: real
  car_y :: real
  car_vx :: real
  car_vy :: real
  car_angle :: real
  car_is_player :: bool
  car_boost :: real
  car_score :: int
  car_boosting :: bool
  car_trail :: "(real \<times> real) list"
  car_invincible :: real
  car_color :: colour
  car_color2 :: colour

text \<open>\<^verbatim>\<open>Car.__init__\<close>; \<^verbatim>\<open>level_cfg or LEVELS[0]\<close> is the option's default.\<close>

definition darker :: "colour \<Rightarrow> colour" where
  "darker col = (case col of (r, g, b) \<Rightarrow> (max 0 (r - 80), max 0 (g - 80), max 0 (b - 80)))"

definition Car_new :: "real \<Rightarrow> real \<Rightarrow> bool \<Rightarrow> level_cfg option \<Rightarrow> Car" where
  "Car_new x y is_player level_cfg =
     (let cfg = (case level_cfg of Some c \<Rightarrow> c | None \<Rightarrow> LEVELS ! 0);
          col = (if is_player then cfg_accent cfg else cfg_accent2 cfg)
      in \<lparr>car_x = x, car_y = y, car_vx = 0, car_vy = 0, car_angle = 0,
          car_is_player = is_player, car_boost = BOOST_MAX, car_score = 0,
          car_boosting = False, car_trail = [], car_invincible = 0,
          car_color = col, car_color2 = darker col\<rparr>)"

text \<open>
  \<^verbatim>\<open>Car.apply_input(left, right, forward, back, boost_key, dt)\<close>, statement by statement:
  turning (lines 951-953), thrust (954-960), the boost decision with drain or recharge
  (961-967), the speed ceiling (968-972) and drag (973-974).
\<close>

definition Car_turn :: "bool \<Rightarrow> bool \<Rightarrow> real \<Rightarrow> Car \<Rightarrow> Car" where
  "Car_turn left right dt c =
     (let rot_spd = 220 * dt;
          a1 = (if left then car_angle c - rot_spd * (pi / 180) else car_angle c);
          a2 = (if right then a1 + rot_spd * (pi / 180) else a1)
      in c\<lparr>car_angle := a2\<rparr>)"

definition Car_thrust :: "bool \<Rightarrow> bool \<Rightarrow> real \<Rightarrow> Car \<Rightarrow> Car" where
  "Car_thrust forward back dt c =
     (let accel = 400;
          c1 = (if forward then
                  c\<lparr>car_vx := car_vx c + cos (car_angle c) * accel * dt,
                    car_vy := car_vy c + sin (car_angle c) * accel * dt\<rparr>
                else c);
          c2 = (if back then
                  c1\<lparr>car_vx := car_vx c1 - cos (car_angle c1) * accel * 0.5 * dt,
                     car_vy := car_vy c1 - sin (car_angle c1) * accel * 0.5 * dt\<rparr>
                else c1)
      in c2)"

definition Car_boost_step :: "bool \<Rightarrow> bool \<Rightarrow> real \<Rightarrow> Car \<Rightarrow> Car" where
  "Car_boost_step forward boost_key dt c =
     (let c1 = c\<lparr>car_boosting := (boost_key \<and> car_boost c > 5 \<and> forward)\<rparr>
      in if car_boosting c1 then
           c1\<lparr>car_vx := car_vx c1 + cos (car_angle c1) * BOOST_SPEED * dt,
              car_vy := car_vy c1 + sin (car_angle c1) * BOOST_SPEED * dt,
              car_boost := car_boost c1 - BOOST_COST * dt\<rparr>
         else c1\<lparr>car_boost := min BOOST_MAX (car_boost c1 + BOOST_RECHARGE * dt)\<rparr>)"

definition Car_speed_cap :: "Car \<Rightarrow> Car" where
  "Car_speed_cap c =
     (let spd = v2_len (car_vx c, car_vy c);
          max_s = (if car_boosting c then BOOST_SPEED else MAX_SPEED)
      in if spd > max_s then
           (let scale = max_s / spd
            in c\<lparr>car_vx := car_vx c * scale, car_vy := car_vy c * scale\<rparr>)
         else c)"

definition Car_drag :: "bool \<Rightarrow> bool \<Rightarrow> Car \<Rightarrow> Car" where
  "Car_drag forward back c =
     (let drag = (if \<not> forward \<and> \<not> back then 0.992 else 0.999)
      in c\<lparr>car_vx := car_vx c * drag, car_vy := car_vy c * drag\<rparr>)"

definition Car_apply_input ::
  "bool \<Rightarrow> bool \<Rightarrow> bool \<Rightarrow> bool \<Rightarrow> bool \<Rightarrow> real \<Rightarrow> Car \<Rightarrow> Car" where
  "Car_apply_input left right forward back boost_key dt c =
     Car_drag forward back
       (Car_speed_cap
         (Car_boost_step forward boost_key dt
           (Car_thrust forward back dt
             (Car_turn left right dt c))))"

text \<open>
  \<^verbatim>\<open>Car.update(dt, level_map)\<close>: field forces and integration (lines 977-978), the trail
  (979-980), the bounds clamp with \<^verbatim>\<open>pad = 30\<close> (981-985), the asteroid impulses (986-992),
  the invincibility countdown (993) and the boost pads (994-999), which also changes the
  pads of the level map.
\<close>

definition Car_move :: "real \<Rightarrow> LevelMap \<Rightarrow> Car \<Rightarrow> Car" where
  "Car_move dt level_map c =
     (let v = apply_gravity level_map (car_x c) (car_y c) (car_vx c) (car_vy c) 1.0 dt;
          c1 = c\<lparr>car_vx := fst v, car_vy := snd v\<rparr>
      in c1\<lparr>car_x := car_x c1 + car_vx c1 * dt, car_y := car_y c1 + car_vy c1 * dt\<rparr>)"

definition push_trail :: "nat \<Rightarrow> real \<times> real \<Rightarrow> (real \<times> real) list \<Rightarrow> (real \<times> real) list" where
  "push_trail limit p trail =
     (let t = trail @ [p] in if length t > limit then tl t else t)"

definition Car_push_trail :: "Car \<Rightarrow> Car" where
  "Car_push_trail c = c\<lparr>car_trail := push_trail 22 (car_x c, car_y c) (car_trail c)\<rparr>"

text \<open>The four statements of the clamp, in the order of the source.\<close>

definition car_pad :: real where "car_pad = 30"

definition Car_clamp_left :: "Car \<Rightarrow> Car" where
  "Car_clamp_left c =
     (if car_x c < car_pad then c\<lparr>car_x := car_pad, car_vx := \<bar>car_vx c\<bar> * 0.6\<rparr> else c)"

definition Car_clamp_right :: "Car \<Rightarrow> Car" where
  "Car_clamp_right c =
     (if car_x c > real_of_int SCREEN_W - car_pad
      then c\<lparr>car_x := real_of_int SCREEN_W - car_pad, car_vx := - \<bar>car_vx c\<bar> * 0.6\<rparr>
      else c)"

definition Car_clamp_top :: "Car \<Rightarrow> Car" where
  "Car_clamp_top c =
     (if car_y c < car_pad then c\<lparr>car_y := car_pad, car_vy := \<bar>car_vy c\<bar> * 0.6\<rparr> else c)"

definition Car_clamp_bottom :: "Car \<Rightarrow> Car" where
  "Car_clamp_bottom c =
     (if car_y c > real_of_int SCREEN_H - car_pad
      then c\<lparr>car_y := real_of_int SCREEN_H - car_pad, car_vy := - \<bar>car_vy c\<bar> * 0.6\<rparr>
      else c)"

definition Car_clamp :: "Car \<Rightarrow> Car" where
  "Car_clamp c = Car_clamp_bottom (Car_clamp_top (Car_clamp_right (Car_clamp_left c)))"

definition Car_asteroid_step :: "MovingAsteroid \<Rightarrow> Car \<Rightarrow> Car" where
  "Car_asteroid_step ast c =
     (let dx = car_x c - ast_x ast; dy = car_y c - ast_y ast;
          d = sqrt (dx\<^sup>2 + dy\<^sup>2);
          min_d = ast_radius ast + real_of_int (max CAR_W CAR_H div 2)
      in if d < min_d \<and> d > 0.1 then
           (let nx = dx / d; ny = dy / d
            in c\<lparr>car_vx := car_vx c + nx * 220, car_vy := car_vy c + ny * 220\<rparr>)
         else c)"

definition Car_invincible_tick :: "real \<Rightarrow> Car \<Rightarrow> Car" where
  "Car_invincible_tick dt c =
     (if car_invincible c > 0 then c\<lparr>car_invincible := car_invincible c - dt\<rparr> else c)"

text \<open>
  The loop over the boost pads: the position of the car is fixed while it runs, the boost
  meter and the pads change.
\<close>

definition pad_in_reach :: "real \<Rightarrow> real \<Rightarrow> BoostPad \<Rightarrow> bool" where
  "pad_in_reach x y bp =
     (bp_active bp \<and> sqrt ((x - bp_x bp)\<^sup>2 + (y - bp_y bp)\<^sup>2) < bp_radius bp + 16)"

fun pickup_pads :: "real \<Rightarrow> real \<Rightarrow> BoostPad list \<Rightarrow> real \<Rightarrow> BoostPad list \<times> real" where
  "pickup_pads x y [] boost = ([], boost)"
| "pickup_pads x y (bp # bps) boost =
     (if pad_in_reach x y bp then
        (let r = pickup_pads x y bps (min BOOST_MAX (boost + 45))
         in (bp\<lparr>bp_active := False, bp_cooldown := 5.0\<rparr> # fst r, snd r))
      else
        (let r = pickup_pads x y bps boost in (bp # fst r, snd r)))"

definition Car_pads :: "LevelMap \<Rightarrow> Car \<Rightarrow> Car \<times> LevelMap" where
  "Car_pads level_map c =
     (let r = pickup_pads (car_x c) (car_y c) (lm_boost_pads level_map) (car_boost c)
      in (c\<lparr>car_boost := snd r\<rparr>, level_map\<lparr>lm_boost_pads := fst r\<rparr>))"

definition Car_update :: "real \<Rightarrow> LevelMap \<Rightarrow> Car \<Rightarrow> Car \<times> LevelMap" where
  "Car_update dt level_map c =
     Car_pads level_map
       (Car_invincible_tick dt
         (fold Car_asteroid_step (lm_asteroids level_map)
           (Car_clamp (Car_push_trail (Car_move dt level_map c)))))"

subsection \<open>The ball (lines 1026-1073)\<close>

record Ball =
  ball_x :: real
  ball_y :: real
  ball_vx :: real
  ball_vy :: real
  ball_trail :: "(real \<times> real) list"
  ball_spin :: real

text \<open>
  \<^verbatim>\<open>Ball.reset\<close> draws the velocity from the process-wide generator
  (\<^verbatim>\<open>random.uniform(-120, 120)\<close>, \<^verbatim>\<open>random.uniform(-90, 90)\<close>); the two values
  drawn are arguments here.
\<close>

definition Ball_reset :: "real \<Rightarrow> real \<Rightarrow> Ball" where
  "Ball_reset rvx rvy =
     \<lparr>ball_x = real_of_int (SCREEN_W div 2), ball_y = real_of_int (SCREEN_H div 2),
      ball_vx = rvx, ball_vy = rvy, ball_trail = [], ball_spin = 0\<rparr>"

definition Ball_move :: "real \<Rightarrow> LevelMap \<Rightarrow> Ball \<Rightarrow> Ball" where
  "Ball_move dt level_map b =
     (let v = apply_gravity level_map (ball_x b) (ball_y b) (ball_vx b) (ball_vy b) 0.7 dt;
          b1 = b\<lparr>ball_vx := fst v, ball_vy := snd v\<rparr>;
          b2 = b1\<lparr>ball_x := ball_x b1 + ball_vx b1 * dt, ball_y := ball_y b1 + ball_vy b1 * dt\<rparr>
      in b2\<lparr>ball_spin := ball_spin b2 + 0.05\<rparr>)"

definition Ball_push_trail :: "Ball \<Rightarrow> Ball" where
  "Ball_push_trail b = b\<lparr>ball_trail := push_trail 16 (ball_x b, ball_y b) (ball_trail b)\<rparr>"

text \<open>The four statements of the ball's clamp (lines 1044-1047).\<close>

definition Ball_clamp_left :: "Ball \<Rightarrow> Ball" where
  "Ball_clamp_left b =
     (if ball_x b < real_of_int BALL_RADIUS
      then b\<lparr>ball_x := real_of_int BALL_RADIUS, ball_vx := \<bar>ball_vx b\<bar> * 0.9\<rparr>
      else b)"

definition Ball_clamp_right :: "Ball \<Rightarrow> Ball" where
  "Ball_clamp_right b =
     (if ball_x b > real_of_int (SCREEN_W - BALL_RADIUS)
      then b\<lparr>ball_x := real_of_int (SCREEN_W - BALL_RADIUS), ball_vx := - \<bar>ball_vx b\<bar> * 0.9\<rparr>
      else b)"

definition Ball_clamp_top :: "Ball \<Rightarrow> Ball" where
  "Ball_clamp_top b =
     (if ball_y b < real_of_int BALL_RADIUS
      then b\<lparr>ball_y := real_of_int BALL_RADIUS, ball_vy := \<bar>ball_vy b\<bar> * 0.9\<rparr>
      else b)"

definition Ball_clamp_bottom :: "Ball \<Rightarrow> Ball" where
  "Ball_clamp_bottom b =
     (if ball_y b > real_of_int (SCREEN_H - BALL_RADIUS)
      then b\<lparr>ball_y := real_of_int (SCREEN_H - BALL_RADIUS), ball_vy := - \<bar>ball_vy b\<bar> * 0.9\<rparr>
      else b)"

definition Ball_clamp :: "Ball \<Rightarrow> Ball" where
  "Ball_clamp b = Ball_clamp_bottom (Ball_clamp_top (Ball_clamp_right (Ball_clamp_left b)))"

definition Ball_asteroid_step :: "MovingAsteroid \<Rightarrow> Ball \<Rightarrow> Ball" where
  "Ball_asteroid_step ast b =
     (let dx = ball_x b - ast_x ast; dy = ball_y b - ast_y ast;
          d = sqrt (dx\<^sup>2 + dy\<^sup>2)
      in if d < real_of_int BALL_RADIUS + ast_radius ast \<and> d > 0.1 then
           (let nx = dx / d; ny = dy / d;
                spd = v2_len (ball_vx b, ball_vy b)
            in b\<lparr>ball_vx := nx * max spd 160, ball_vy := ny * max spd 160,
                 ball_x := ast_x ast + nx * (real_of_int BALL_RADIUS + ast_radius ast + 2),
                 ball_y := ast_y ast + ny * (real_of_int BALL_RADIUS + ast_radius ast + 2)\<rparr>)
         else b)"

definition Ball_speed_cap :: "Ball \<Rightarrow> Ball" where
  "Ball_speed_cap b =
     (let spd = v2_len (ball_vx b, ball_vy b)
      in if spd > 750 then b\<lparr>ball_vx := ball_vx b / spd * 750, ball_vy := ball_vy b / spd * 750\<rparr>
         else b)"

definition Ball_update :: "real \<Rightarrow> LevelMap \<Rightarrow> Ball \<Rightarrow> Ball" where
  "Ball_update dt level_map b =
     Ball_speed_cap
       (fold Ball_asteroid_step (lm_asteroids level_map)
         (Ball_clamp (Ball_push_trail (Ball_move dt level_map b))))"

text \<open>
  \<^verbatim>\<open>Ball.car_hit(car, particles)\<close> returns whether the ball was hit and changes the ball
  and the car; the burst of particles is not modelled.
\<close>

definition car_hit :: "Car \<Rightarrow> Ball \<Rightarrow> bool \<times> Ball \<times> Car" where
  "car_hit car b =
     (let dx = ball_x b - car_x car; dy = ball_y b - car_y car;
          d = sqrt (dx\<^sup>2 + dy\<^sup>2);
          min_d = real_of_int (BALL_RADIUS + max CAR_W CAR_H div 2)
      in if d < min_d \<and> d > 0.1 then
           (let nx = dx / d; ny = dy / d;
                car_spd = v2_len (car_vx car, car_vy car);
                impact = max (car_spd * 0.8) 260 + (if car_boosting car then 200 else 0);
                b1 = b\<lparr>ball_vx := nx * impact + car_vx car * 0.3,
                       ball_vy := ny * impact + car_vy car * 0.3\<rparr>;
                car1 = car\<lparr>car_vx := car_vx car - nx * 80, car_vy := car_vy car - ny * 80\<rparr>;
                b2 = b1\<lparr>ball_x := car_x car1 + nx * (min_d + 2),
                        ball_y := car_y car1 + ny * (min_d + 2)\<rparr>
            in (True, b2, car1))
         else (False, b, car))"

subsection \<open>The adaptive AI (lines 1092-1121)\<close>

datatype AIDifficulty = EASY | MEDIUM | HARD | ELITE

fun difficulty_value :: "AIDifficulty \<Rightarrow> nat" where
  "difficulty_value EASY = 0"
| "difficulty_value MEDIUM = 1"
| "difficulty_value HARD = 2"
| "difficulty_value ELITE = 3"

record AIBrain =
  ai_diff :: AIDifficulty
  ai_state :: string
  ai_state_timer :: real
  ai_think_timer :: real
  ai_goals_conceded :: int
  ai_goals_scored :: int
  ai_reaction_delay :: real
  ai_aim_noise :: real

text \<open>
  \<^verbatim>\<open>AIBrain.__init__\<close>. The table \<^verbatim>\<open>q_weights\<close> is a constant of the class and is
  read by the state choice only; it is not a field of the record.
\<close>

definition AIBrain_new :: "AIDifficulty \<Rightarrow> AIBrain" where
  "AIBrain_new d =
     \<lparr>ai_diff = d, ai_state = ''idle'', ai_state_timer = 0, ai_think_timer = 0,
      ai_goals_conceded = 0, ai_goals_scored = 0,
      ai_reaction_delay = [0.5, 0.25, 0.1, 0.0] ! difficulty_value d,
      ai_aim_noise = [30.0, 15.0, 6.0, 1.0] ! difficulty_value d\<rparr>"

definition adapt :: "AIBrain \<Rightarrow> AIBrain" where
  "adapt br =
     (let diff = ai_goals_scored br - ai_goals_conceded br
      in if diff < - 2 then
           br\<lparr>ai_aim_noise := max 1.0 (ai_aim_noise br - 3.0),
              ai_reaction_delay := max 0.0 (ai_reaction_delay br - 0.05)\<rparr>
         else if diff > 2 then
           br\<lparr>ai_aim_noise := min 40.0 (ai_aim_noise br + 2.0),
              ai_reaction_delay := min 0.6 (ai_reaction_delay br + 0.03)\<rparr>
         else br)"

subsection \<open>Goal zones (lines 1171-1180)\<close>

text \<open>
  \<^verbatim>\<open>pygame.Rect\<close> with integer position and size. \<^verbatim>\<open>Rect.collidepoint\<close> is the
  library's: a point is inside when it lies within the rectangle, where a point along the
  right or the bottom edge is not inside (pygame's documented behaviour, for a rectangle of
  positive size).
\<close>

record Rect =
  rect_x :: int
  rect_y :: int
  rect_w :: int
  rect_h :: int

definition collidepoint :: "Rect \<Rightarrow> int \<Rightarrow> int \<Rightarrow> bool" where
  "collidepoint r px py =
     (rect_x r \<le> px \<and> px < rect_x r + rect_w r \<and> rect_y r \<le> py \<and> py < rect_y r + rect_h r)"

text \<open>Python's \<^verbatim>\<open>int(x)\<close> on a float truncates towards zero.\<close>

definition py_int :: "real \<Rightarrow> int" where
  "py_int x = (if x \<ge> 0 then \<lfloor>x\<rfloor> else \<lceil>x\<rceil>)"

record GoalZone =
  gz_side :: string
  gz_x :: int
  gz_y :: int
  gz_rect :: Rect
  gz_color :: colour

definition GoalZone_new :: "string \<Rightarrow> level_cfg \<Rightarrow> GoalZone" where
  "GoalZone_new side level_cfg =
     (let x = (if side = ''left'' then 0 else SCREEN_W - GOAL_W);
          y = (SCREEN_H - GOAL_H) div 2
      in \<lparr>gz_side = side, gz_x = x, gz_y = y,
          gz_rect = \<lparr>rect_x = x, rect_y = y, rect_w = GOAL_W, rect_h = GOAL_H\<rparr>,
          gz_color = (if side = ''left'' then cfg_accent level_cfg else cfg_accent2 level_cfg)\<rparr>)"

definition check_goal :: "GoalZone \<Rightarrow> Ball \<Rightarrow> bool" where
  "check_goal gz b = collidepoint (gz_rect gz) (py_int (ball_x b)) (py_int (ball_y b))"

subsection \<open>Per-tick evolution of the arena: \<^verbatim>\<open>LevelMap.update\<close> (lines 702-733)\<close>

definition pad_tick :: "real \<Rightarrow> BoostPad \<Rightarrow> BoostPad" where
  "pad_tick dt pad =
     (if \<not> bp_active pad then
        (let p1 = pad\<lparr>bp_cooldown := bp_cooldown pad - dt\<rparr>
         in if bp_cooldown p1 \<le> 0 then p1\<lparr>bp_active := True\<rparr> else p1)
      else pad)"

definition asteroid_tick :: "real \<Rightarrow> MovingAsteroid \<Rightarrow> MovingAsteroid" where
  "asteroid_tick dt ast =
     (let a1 = ast\<lparr>ast_x := ast_x ast + ast_vx ast * dt\<rparr>;
          a2 = a1\<lparr>ast_y := ast_y a1 + ast_vy a1 * dt\<rparr>;
          a3 = a2\<lparr>ast_angle := ast_angle a2 + ast_spin a2 * dt\<rparr>;
          a4 = (if ast_x a3 < ast_radius a3 \<or> ast_x a3 > real_of_int SCREEN_W - ast_radius a3
                then a3\<lparr>ast_vx := ast_vx a3 * (- 1)\<rparr> else a3);
          a5 = (if ast_y a4 < ast_radius a4 \<or> ast_y a4 > real_of_int SCREEN_H - ast_radius a4
                then a4\<lparr>ast_vy := ast_vy a4 * (- 1)\<rparr> else a4)
      in a5)"

definition shard_tick :: "real \<Rightarrow> CrystalShard \<Rightarrow> CrystalShard" where
  "shard_tick dt cs = cs\<lparr>cs_angle := cs_angle cs + cs_spin cs * dt\<rparr>"

definition ring_tick :: "real \<Rightarrow> PulseRing \<Rightarrow> PulseRing" where
  "ring_tick dt pr =
     (let p1 = pr\<lparr>pr_radius := pr_radius pr + pr_speed pr * dt\<rparr>
      in if pr_radius p1 > pr_max_radius p1 then p1\<lparr>pr_radius := 10\<rparr> else p1)"

text \<open>
  The lightning nodes draw their next timer from the process-wide generator of the
  \<^verbatim>\<open>random\<close> module, which nothing seeds. \<^verbatim>\<open>random.uniform(a, b)\<close> is
  \<^verbatim>\<open>a + (b - a) * random()\<close>; the values \<^verbatim>\<open>random()\<close> returns during one call of
  \<^verbatim>\<open>LevelMap.update\<close> are given by \<open>u\<close>, the \<open>k\<close>-th of them being \<open>u k\<close>.
\<close>

definition py_uniform :: "real \<Rightarrow> real \<Rightarrow> real \<Rightarrow> real" where
  "py_uniform a b r = a + (b - a) * r"

fun lightning_tick :: "(nat \<Rightarrow> real) \<Rightarrow> real \<Rightarrow> nat \<Rightarrow> LightningNode list \<Rightarrow> LightningNode list" where
  "lightning_tick u dt k [] = []"
| "lightning_tick u dt k (node # nodes) =
     (let n1 = node\<lparr>ln_timer := ln_timer node - dt\<rparr>
      in if ln_timer n1 \<le> 0 then
           (let n2 = n1\<lparr>ln_active := \<not> ln_active n1\<rparr>;
                n3 = n2\<lparr>ln_timer := (if ln_active n2 then py_uniform 0.4 2.5 (u k)
                                       else py_uniform 1.0 4.0 (u k))\<rparr>
            in n3 # lightning_tick u dt (Suc k) nodes)
         else n1 # lightning_tick u dt k nodes)"

definition LevelMap_update :: "(nat \<Rightarrow> real) \<Rightarrow> real \<Rightarrow> LevelMap \<Rightarrow> LevelMap" where
  "LevelMap_update u dt lm =
     lm\<lparr>lm_boost_pads := map (pad_tick dt) (lm_boost_pads lm),
        lm_asteroids := map (asteroid_tick dt) (lm_asteroids lm),
        lm_crystal_shards := map (shard_tick dt) (lm_crystal_shards lm),
        lm_pulse_rings := map (ring_tick dt) (lm_pulse_rings lm),
        lm_lightning := lightning_tick u dt 0 (lm_lightning lm)\<rparr>"

subsection \<open>Layout generation: \<^verbatim>\<open>LevelMap.__init__\<close> and \<^verbatim>\<open>_generate\<close> (lines 608-700)\<close>

text \<open>
  The layout is drawn from \<^verbatim>\<open>random.Random(level_id * 137 + 42)\<close>. The generator is
  the standard library's; the model takes it as a parameter: a type \<open>'g\<close> of generator
  states, the state a seed gives, and the three methods the layout calls, each returning
  its value and the next state. \<^verbatim>\<open>TerrainRenderer(level_id, rng)\<close> bakes the background
  from the same generator before the layout is drawn (lines 190-387, calls of the
  generator's methods only); what it leaves behind is the generator's state, given by
  \<open>rng_terrain\<close>.
\<close>

record 'g rng_ops =
  rng_Random :: "int \<Rightarrow> 'g"
  rng_randint :: "'g \<Rightarrow> int \<Rightarrow> int \<Rightarrow> int \<times> 'g"
  rng_uniform :: "'g \<Rightarrow> real \<Rightarrow> real \<Rightarrow> real \<times> 'g"
  rng_choice :: "'g \<Rightarrow> string list \<Rightarrow> string \<times> 'g"
  rng_terrain :: "int \<Rightarrow> 'g \<Rightarrow> 'g"

text \<open>\<^verbatim>\<open>for _ in range(n)\<close> around a body that draws from the generator.\<close>

fun rng_repeat :: "nat \<Rightarrow> ('g \<Rightarrow> 'a \<times> 'g) \<Rightarrow> 'g \<Rightarrow> 'a list \<times> 'g" where
  "rng_repeat 0 body g = ([], g)"
| "rng_repeat (Suc n) body g =
     (let r = body g; rs = rng_repeat n body (snd r) in (fst r # fst rs, snd rs))"

definition gen_pad_pos :: "'g rng_ops \<Rightarrow> 'g \<Rightarrow> (real \<times> real) \<times> 'g" where
  "gen_pad_pos R g =
     (let px = rng_randint R g 120 (SCREEN_W - 120);
          py = rng_randint R (snd px) 90 (SCREEN_H - 90)
      in ((real_of_int (fst px), real_of_int (fst py)), snd py))"

definition gen_boost_pads :: "'g rng_ops \<Rightarrow> 'g \<Rightarrow> BoostPad list \<times> 'g" where
  "gen_boost_pads R g =
     (let n = rng_randint R g 3 6;
          more = rng_repeat (nat (fst n)) (gen_pad_pos R) (snd n);
          pads = (real_of_int (SCREEN_W div 2), real_of_int (SCREEN_H div 2)) # fst more
      in (map (\<lambda>p. BoostPad_new (fst p) (snd p)) pads, snd more))"

definition gen_anomaly :: "'g rng_ops \<Rightarrow> string list \<Rightarrow> 'g \<Rightarrow> GravityAnomaly \<times> 'g" where
  "gen_anomaly R kinds g =
     (let kind = rng_choice R g kinds;
          ax = rng_randint R (snd kind) 220 (SCREEN_W - 220);
          ay = rng_randint R (snd ax) 130 (SCREEN_H - 130);
          r = rng_randint R (snd ay) 55 115;
          s = (if fst kind = ''black_hole'' then rng_uniform R (snd r) 100 220
               else rng_uniform R (snd r) (- 50) (- 110));
          s' = (if fst kind = ''nebula'' then rng_uniform R (snd s) 25 55 else s)
      in (\<lparr>ga_x = real_of_int (fst ax), ga_y = real_of_int (fst ay),
           ga_radius = real_of_int (fst r), ga_strength = fst s', ga_kind = fst kind\<rparr>,
          snd s'))"

definition gen_asteroid :: "'g rng_ops \<Rightarrow> int \<Rightarrow> 'g \<Rightarrow> MovingAsteroid \<times> 'g" where
  "gen_asteroid R lid g =
     (let spd = (if lid = 3 then 60 else 80);
          col = (if lid = 2 then (160, 100, 50) else if lid = 3 then (120, 20, 40)
                 else (130, 110, 90));
          x = rng_randint R g 200 (SCREEN_W - 200);
          y = rng_randint R (snd x) 90 (SCREEN_H - 90);
          r = rng_randint R (snd y) 14 32;
          vx = rng_uniform R (snd r) (- spd) spd;
          vy = rng_uniform R (snd vx) (- spd * 0.8) (spd * 0.8);
          angle = rng_uniform R (snd vy) 0 (pi * 2);
          spin = rng_uniform R (snd angle) (- 2.5) 2.5
      in (\<lparr>ast_x = real_of_int (fst x), ast_y = real_of_int (fst y),
           ast_radius = real_of_int (fst r), ast_vx = fst vx, ast_vy = fst vy,
           ast_angle = fst angle, ast_spin = fst spin, ast_color = col\<rparr>,
          snd spin))"

definition gen_shard :: "'g rng_ops \<Rightarrow> 'g \<Rightarrow> CrystalShard \<times> 'g" where
  "gen_shard R g =
     (let x = rng_randint R g 100 (SCREEN_W - 100);
          y = rng_randint R (snd x) 80 (SCREEN_H - 80);
          angle = rng_uniform R (snd y) 0 (pi * 2);
          size = rng_randint R (snd angle) 18 45;
          spin = rng_uniform R (snd size) (- 0.8) 0.8
      in (\<lparr>cs_x = real_of_int (fst x), cs_y = real_of_int (fst y), cs_angle = fst angle,
           cs_size = real_of_int (fst size), cs_spin = fst spin\<rparr>,
          snd spin))"

definition gen_corridor :: "'g rng_ops \<Rightarrow> 'g \<Rightarrow> GravityCorridor \<times> 'g" where
  "gen_corridor R g =
     (let x = rng_randint R g 200 (SCREEN_W - 200);
          y = rng_randint R (snd x) 100 (SCREEN_H - 100);
          w = rng_randint R (snd y) 40 80;
          h = rng_randint R (snd w) 80 180;
          strength = rng_uniform R (snd h) 150 300;
          direction = rng_uniform R (snd strength) 0 (pi * 2)
      in (\<lparr>gc_x = real_of_int (fst x), gc_y = real_of_int (fst y),
           gc_width = real_of_int (fst w), gc_height = real_of_int (fst h),
           gc_strength = fst strength, gc_direction = fst direction\<rparr>,
          snd direction))"

definition gen_ring :: "'g rng_ops \<Rightarrow> colour \<Rightarrow> 'g \<Rightarrow> PulseRing \<times> 'g" where
  "gen_ring R accent g =
     (let x = rng_randint R g 200 (SCREEN_W - 200);
          y = rng_randint R (snd x) 100 (SCREEN_H - 100);
          max_r = rng_randint R (snd y) 80 160;
          speed = rng_uniform R (snd max_r) 80 160
      in (\<lparr>pr_cx = real_of_int (fst x), pr_cy = real_of_int (fst y), pr_radius = 10,
           pr_max_radius = real_of_int (fst max_r), pr_speed = fst speed,
           pr_color = accent\<rparr>,
          snd speed))"

definition gen_lightning :: "'g rng_ops \<Rightarrow> 'g \<Rightarrow> LightningNode \<times> 'g" where
  "gen_lightning R g =
     (let x = rng_randint R g 150 (SCREEN_W - 150);
          y = rng_randint R (snd x) 80 (SCREEN_H - 80);
          timer = rng_uniform R (snd y) 1.5 4.0;
          r = rng_randint R (snd timer) 50 90
      in (\<lparr>ln_x = real_of_int (fst x), ln_y = real_of_int (fst y), ln_timer = fst timer,
           ln_active = False, ln_radius = real_of_int (fst r)\<rparr>,
          snd r))"

text \<open>\<^verbatim>\<open>if name in hazards: for _ in range(n): ...\<close>\<close>

definition gen_hazard ::
  "string \<Rightarrow> string list \<Rightarrow> nat \<Rightarrow> ('g \<Rightarrow> 'a \<times> 'g) \<Rightarrow> 'g \<Rightarrow> 'a list \<times> 'g" where
  "gen_hazard name hazards n body g =
     (if name \<in> set hazards then rng_repeat n body g else ([], g))"

definition generate :: "'g rng_ops \<Rightarrow> int \<Rightarrow> level_cfg \<Rightarrow> 'g \<Rightarrow> LevelMap" where
  "generate R level_id cfg g =
     (let pads = gen_boost_pads R g;
          anomalies = rng_repeat (cfg_max_anomalies cfg)
                        (gen_anomaly R (cfg_anomaly_types cfg)) (snd pads);
          asteroids = rng_repeat (cfg_max_asteroids cfg) (gen_asteroid R level_id)
                        (snd anomalies);
          hazards = cfg_hazards cfg;
          shards = gen_hazard ''crystal_shards'' hazards 8 (gen_shard R) (snd asteroids);
          corridors = gen_hazard ''gravity_corridors'' hazards 3 (gen_corridor R) (snd shards);
          rings = gen_hazard ''pulse_rings'' hazards 3 (gen_ring R (cfg_accent cfg))
                    (snd corridors);
          lightning = gen_hazard ''lightning_nodes'' hazards 5 (gen_lightning R) (snd rings)
      in \<lparr>lm_level_id = level_id, lm_cfg = cfg, lm_anomalies = fst anomalies,
          lm_boost_pads = fst pads, lm_asteroids = fst asteroids,
          lm_pulse_rings = fst rings, lm_lightning = fst lightning,
          lm_crystal_shards = fst shards, lm_gravity_corridors = fst corridors\<rparr>)"

text \<open>
  How a call can end without a result: the process exits (\<^verbatim>\<open>sys.exit()\<close>), or an
  exception is raised that nothing in the program catches.
\<close>

datatype failure = Exited | IndexError | KeyError

text \<open>
  \<^verbatim>\<open>LEVELS[level_id]\<close> on the table of five levels: the indices \<open>0 \<dots> 4\<close> select
  from the front, \<open>-5 \<dots> -1\<close> from the back, and any other index raises
  \<^verbatim>\<open>IndexError\<close>.
\<close>

definition level_lookup :: "int \<Rightarrow> failure + level_cfg" where
  "level_lookup level_id =
     (if 0 \<le> level_id \<and> level_id < int (length LEVELS) then Inr (LEVELS ! nat level_id)
      else if - int (length LEVELS) \<le> level_id \<and> level_id < 0
        then Inr (LEVELS ! nat (int (length LEVELS) + level_id))
      else Inl IndexError)"

definition LevelMap_new :: "'g rng_ops \<Rightarrow> int \<Rightarrow> failure + LevelMap" where
  "LevelMap_new R level_id =
     (case level_lookup level_id of
        Inl e \<Rightarrow> Inl e
      | Inr cfg \<Rightarrow>
          Inr (generate R level_id cfg
                 (rng_terrain R level_id (rng_Random R (level_id * 137 + 42)))))"

subsection \<open>The AI's controls: \<^verbatim>\<open>AIBrain.get_controls\<close> (lines 1123-1168)\<close>

text \<open>
  The class constant \<^verbatim>\<open>q_weights\<close>, an association list in the order the dictionary is
  written.
\<close>

definition q_weights :: "(string \<times> (string \<times> real) list) list" where
  "q_weights =
    [(''idle'', [(''chase_ball'', 0.7), (''defend_goal'', 0.3)]),
     (''chase_ball'', [(''attack_goal'', 0.6), (''defend_goal'', 0.3), (''boost_hunt'', 0.1)]),
     (''attack_goal'', [(''chase_ball'', 0.5), (''defend_goal'', 0.3), (''retreat'', 0.2)]),
     (''defend_goal'', [(''chase_ball'', 0.6), (''attack_goal'', 0.2), (''boost_hunt'', 0.2)]),
     (''retreat'', [(''defend_goal'', 0.5), (''chase_ball'', 0.4), (''boost_hunt'', 0.1)]),
     (''boost_hunt'', [(''chase_ball'', 0.7), (''attack_goal'', 0.3)])]"

definition predict_ball :: "Ball \<Rightarrow> real \<times> real" where
  "predict_ball b =
     ((\<lambda>p. (fst p + ball_vx b * 0.05, snd p + ball_vy b * 0.05)) ^^ 20) (ball_x b, ball_y b)"

text \<open>
  What the AI's decision draws at random in one tick, as the values the library calls
  return: \<open>ar_choice\<close> maps the candidates and their normalised weights to the candidate
  \<^verbatim>\<open>np.random.choice\<close> picks; the three reals are the values of \<^verbatim>\<open>random()\<close> behind
  the think-timer jitter and the two aim jitters.
\<close>

record ai_randomness =
  ar_choice :: "string list \<Rightarrow> real list \<Rightarrow> string"
  ar_think :: real
  ar_aim_x :: real
  ar_aim_y :: real

definition choose_state :: "ai_randomness \<Rightarrow> Car \<Rightarrow> Ball \<Rightarrow> LevelMap \<Rightarrow> AIBrain \<Rightarrow> string" where
  "choose_state rnd car b level_map br =
     (let goal_x = real_of_int (SCREEN_W - GOAL_W div 2);
          ball_to_goal = \<bar>ball_x b - goal_x\<bar>;
          car_to_ball = sqrt ((car_x car - ball_x b)\<^sup>2 + (car_y car - ball_y b)\<^sup>2);
          ball_danger = (ball_x b > real_of_int SCREEN_W * 0.65 \<and> ball_to_goal < 250);
          boost_low = (car_boost car < 30);
          boost_near = (\<exists>p \<in> set (filter bp_active (lm_boost_pads level_map)).
                          sqrt ((car_x car - bp_x p)\<^sup>2 + (car_y car - bp_y p)\<^sup>2) < 200)
      in if ball_danger then ''defend_goal''
         else if boost_low \<and> boost_near then ''boost_hunt''
         else if car_to_ball < 150 \<and> ball_x b < real_of_int SCREEN_W * 0.5 then ''attack_goal''
         else
           (let weights = (case map_of q_weights (ai_state br) of
                             Some w \<Rightarrow> w | None \<Rightarrow> the (map_of q_weights ''idle''));
                candidates = map fst weights;
                probs = map (\<lambda>w. snd w / sum_list (map snd weights)) weights
            in ar_choice rnd candidates probs))"

text \<open>The search for the nearest active pad in state \<^verbatim>\<open>boost_hunt\<close>.\<close>

fun nearest_pad :: "Car \<Rightarrow> BoostPad list \<Rightarrow> BoostPad option \<times> real \<Rightarrow> BoostPad option \<times> real" where
  "nearest_pad car [] acc = acc"
| "nearest_pad car (pad # pads) acc =
     (if bp_active pad then
        (let d = sqrt ((car_x car - bp_x pad)\<^sup>2 + (car_y car - bp_y pad)\<^sup>2)
         in if d < snd acc then nearest_pad car pads (Some pad, d)
            else nearest_pad car pads acc)
      else nearest_pad car pads acc)"

text \<open>Python's \<^verbatim>\<open>%\<close> on floats, for a positive modulus.\<close>

definition py_fmod :: "real \<Rightarrow> real \<Rightarrow> real" where
  "py_fmod a m = a - m * real_of_int \<lfloor>a / m\<rfloor>"

text \<open>\<^verbatim>\<open>math.atan2(dy, dx)\<close>: the argument of the point \<open>(dx, dy)\<close>, in \<open>(-\<pi>, \<pi>]\<close>.\<close>

definition atan2 :: "real \<Rightarrow> real \<Rightarrow> real" where
  "atan2 dy dx = Arg (Complex dx dy)"

definition get_controls ::
  "ai_randomness \<Rightarrow> Car \<Rightarrow> Ball \<Rightarrow> LevelMap \<Rightarrow> real \<Rightarrow> AIBrain
     \<Rightarrow> (bool \<times> bool \<times> bool \<times> bool \<times> bool) \<times> AIBrain" where
  "get_controls rnd car b level_map dt br =
     (let br1 = br\<lparr>ai_think_timer := ai_think_timer br - dt,
                    ai_state_timer := ai_state_timer br + dt\<rparr>;
          br2 = (if ai_think_timer br1 \<le> 0 then
                   (let st = choose_state rnd car b level_map br1
                    in br1\<lparr>ai_state := st,
                          ai_think_timer := ai_reaction_delay br1
                                              + py_uniform (- 0.05) 0.05 (ar_think rnd)\<rparr>)
                 else br1);
          pred = predict_ball b;
          ai_goal_x = real_of_int (SCREEN_W - GOAL_W - 30);
          player_goal_x = real_of_int (GOAL_W + 30);
          target =
            (if ai_state br2 = ''defend_goal'' then
               (lerp (fst pred) ai_goal_x 0.6, lerp (snd pred) (real_of_int (SCREEN_H div 2)) 0.3)
             else if ai_state br2 = ''attack_goal'' then
               (fst pred + (player_goal_x - fst pred) * 0.3, snd pred)
             else if ai_state br2 = ''boost_hunt'' then
               (case fst (nearest_pad car (lm_boost_pads level_map) (None, 9999)) of
                  Some pad \<Rightarrow> (bp_x pad, bp_y pad)
                | None \<Rightarrow> pred)
             else if ai_state br2 = ''retreat'' then
               (ai_goal_x, real_of_int (SCREEN_H div 2))
             else pred);
          tx = fst target + py_uniform (- ai_aim_noise br2) (ai_aim_noise br2) (ar_aim_x rnd);
          ty = snd target + py_uniform (- ai_aim_noise br2) (ai_aim_noise br2) (ar_aim_y rnd);
          dx = tx - car_x car; dy = ty - car_y car;
          ta = atan2 dy dx;
          ad = py_fmod (ta - car_angle car + pi) (pi * 2) - pi;
          left = (ad < - 0.08); right = (ad > 0.08);
          dist = sqrt (dx\<^sup>2 + dy\<^sup>2);
          forward = (dist > 40); back = False;
          use_boost = (car_boost car > 40 \<and> dist > 150
                        \<and> ai_state br2 \<in> set [''attack_goal'', ''defend_goal''])
      in ((left, right, forward, back, use_boost), br2))"

subsection \<open>The match: \<^verbatim>\<open>Game\<close> (lines 1389-1644)\<close>

text \<open>
  The state of \<^verbatim>\<open>Game\<close> without the presentation: the screen, clock, fonts, particles,
  the advisory message with its timer and the goal flash overlay are left out.
  \<^verbatim>\<open>best_scores\<close> is a dictionary with the keys \<open>0 \<dots> 4\<close>.
\<close>

record Game =
  g_best_scores :: "int \<rightharpoonup> int"
  g_state :: string
  g_sel_level :: int
  g_t :: real
  g_level_id :: int
  g_level_map :: LevelMap
  g_player :: Car
  g_ai_car :: Car
  g_ball :: Ball
  g_goal_l :: GoalZone
  g_goal_r :: GoalZone
  g_ai_brain :: AIBrain
  g_ai_state :: string
  g_time_left :: real
  g_combo :: int
  g_low_time_warned :: bool
  g_winner :: "string option"

definition MATCH_TIME :: real where "MATCH_TIME = 120.0"

text \<open>
  \<^verbatim>\<open>Game._init_game(level_id)\<close> assigns every field of a match anew and keeps the four
  fields \<^verbatim>\<open>__init__\<close> has set before it. The pair \<open>bd\<close> holds the two values of
  \<^verbatim>\<open>random()\<close> behind the velocity \<^verbatim>\<open>Ball()\<close> starts with.
\<close>

definition ball_draw :: "real \<times> real \<Rightarrow> Ball" where
  "ball_draw bd = Ball_reset (py_uniform (- 120) 120 (fst bd)) (py_uniform (- 90) 90 (snd bd))"

definition fresh_match ::
  "LevelMap \<Rightarrow> real \<times> real \<Rightarrow> int \<Rightarrow> (int \<rightharpoonup> int) \<Rightarrow> string \<Rightarrow> int \<Rightarrow> real \<Rightarrow> Game" where
  "fresh_match level_map bd level_id best_scores state sel_level t =
     (let cfg = lm_cfg level_map
      in \<lparr>g_best_scores = best_scores, g_state = state, g_sel_level = sel_level, g_t = t,
          g_level_id = level_id, g_level_map = level_map,
          g_player = Car_new 180 (real_of_int (SCREEN_H div 2)) True (Some cfg),
          g_ai_car = Car_new (real_of_int (SCREEN_W - 180)) (real_of_int (SCREEN_H div 2))
                       False (Some cfg),
          g_ball = ball_draw bd,
          g_goal_l = GoalZone_new ''left'' cfg,
          g_goal_r = GoalZone_new ''right'' cfg,
          g_ai_brain = AIBrain_new MEDIUM,
          g_ai_state = ''idle'',
          g_time_left = MATCH_TIME,
          g_combo = 1,
          g_low_time_warned = False,
          g_winner = None\<rparr>)"

definition init_game :: "'g rng_ops \<Rightarrow> real \<times> real \<Rightarrow> int \<Rightarrow> Game \<Rightarrow> failure + Game" where
  "init_game R bd level_id g =
     (case LevelMap_new R level_id of
        Inl e \<Rightarrow> Inl e
      | Inr level_map \<Rightarrow>
          Inr (fresh_match level_map bd level_id
                 (g_best_scores g) (g_state g) (g_sel_level g) (g_t g)))"

text \<open>
  \<^verbatim>\<open>Game.__init__\<close>: no best score yet, the level selection showing level 0, and
  \<^verbatim>\<open>_init_game(0)\<close>.
\<close>

definition Game_new :: "'g rng_ops \<Rightarrow> real \<times> real \<Rightarrow> failure + Game" where
  "Game_new R bd =
     (case LevelMap_new R 0 of
        Inl e \<Rightarrow> Inl e
      | Inr level_map \<Rightarrow>
          Inr (fresh_match level_map bd 0
                 (map_of (map (\<lambda>i. (int i, 0)) [0..<length LEVELS])) ''select'' 0 0))"

definition reset_positions :: "real \<times> real \<Rightarrow> Game \<Rightarrow> Game" where
  "reset_positions bd g =
     g\<lparr>g_player := (g_player g)\<lparr>car_x := 180, car_y := real_of_int (SCREEN_H div 2),
                                  car_vx := 0, car_vy := 0, car_trail := []\<rparr>,
       g_ai_car := (g_ai_car g)\<lparr>car_x := real_of_int (SCREEN_W - 180),
                                  car_y := real_of_int (SCREEN_H div 2),
                                  car_vx := 0, car_vy := 0, car_trail := []\<rparr>,
       g_ball := ball_draw bd\<rparr>"

text \<open>
  \<^verbatim>\<open>Game.handle_events\<close>, for one event of the queue. \<^verbatim>\<open>pygame.quit(); sys.exit()\<close>
  ends the process: \<open>Inl Exited\<close>.
\<close>

datatype key =
  K_a | K_d | K_w | K_s | K_LEFT | K_RIGHT | K_UP | K_DOWN | K_SPACE | K_LSHIFT
  | K_RETURN | K_ESCAPE | K_n | K_r | K_other

datatype event = QUIT | KEYDOWN key | OTHER_EVENT

definition n_levels :: int where "n_levels = int (length LEVELS)"

definition start_level :: "'g rng_ops \<Rightarrow> real \<times> real \<Rightarrow> int \<Rightarrow> Game \<Rightarrow> failure + Game" where
  "start_level R bd level_id g =
     (case init_game R bd level_id g of
        Inl e \<Rightarrow> Inl e
      | Inr g' \<Rightarrow> Inr (g'\<lparr>g_state := ''playing''\<rparr>))"

text \<open>The branch of a key press in each of the four states of the match.\<close>

definition keydown_select :: "'g rng_ops \<Rightarrow> real \<times> real \<Rightarrow> key \<Rightarrow> Game \<Rightarrow> failure + Game" where
  "keydown_select R bd k g =
     (if k \<in> {K_LEFT, K_a} then
        Inr (g\<lparr>g_sel_level := (g_sel_level g - 1) mod n_levels\<rparr>)
      else if k \<in> {K_RIGHT, K_d} then
        Inr (g\<lparr>g_sel_level := (g_sel_level g + 1) mod n_levels\<rparr>)
      else if k \<in> {K_RETURN, K_SPACE} then start_level R bd (g_sel_level g) g
      else if k = K_ESCAPE then Inl Exited
      else Inr g)"

definition keydown_playing :: "'g rng_ops \<Rightarrow> real \<times> real \<Rightarrow> key \<Rightarrow> Game \<Rightarrow> failure + Game" where
  "keydown_playing R bd k g =
     (if k = K_ESCAPE then Inr (g\<lparr>g_state := ''select''\<rparr>)
      else if k = K_n then
        (let g1 = g\<lparr>g_sel_level := (g_sel_level g + 1) mod n_levels\<rparr>
         in start_level R bd (g_sel_level g1) g1)
      else if k = K_r then start_level R bd (g_level_id g) g
      else Inr g)"

definition keydown_goal_flash :: "real \<times> real \<Rightarrow> key \<Rightarrow> Game \<Rightarrow> failure + Game" where
  "keydown_goal_flash bd k g =
     (if k = K_SPACE then Inr (reset_positions bd (g\<lparr>g_state := ''playing''\<rparr>))
      else Inr g)"

definition keydown_gameover :: "'g rng_ops \<Rightarrow> real \<times> real \<Rightarrow> key \<Rightarrow> Game \<Rightarrow> failure + Game" where
  "keydown_gameover R bd k g =
     (if k = K_r then start_level R bd (g_level_id g) g
      else if k = K_n then
        (let g1 = g\<lparr>g_sel_level := (g_sel_level g + 1) mod n_levels\<rparr>
         in start_level R bd (g_sel_level g1) g1)
      else if k = K_ESCAPE then Inr (g\<lparr>g_state := ''select''\<rparr>)
      else Inr g)"

definition handle_event :: "'g rng_ops \<Rightarrow> real \<times> real \<Rightarrow> event \<Rightarrow> Game \<Rightarrow> failure + Game" where
  "handle_event R bd ev g =
     (case ev of
        QUIT \<Rightarrow> Inl Exited
      | OTHER_EVENT \<Rightarrow> Inr g
      | KEYDOWN k \<Rightarrow>
          if g_state g = ''select'' then keydown_select R bd k g
          else if g_state g = ''playing'' then keydown_playing R bd k g
          else if g_state g = ''goal_flash'' then keydown_goal_flash bd k g
          else if g_state g = ''gameover'' then keydown_gameover R bd k g
          else Inr g)"

text \<open>
  What one call of \<^verbatim>\<open>Game.update\<close> reads from outside the game: the keys held down,
  the AI's random draws, the two values of \<^verbatim>\<open>random()\<close> behind the hazard perturbation
  and those behind the lightning timers.
\<close>

record tick_env =
  te_keys :: "key \<Rightarrow> bool"
  te_ai :: ai_randomness
  te_hazard_x :: real
  te_hazard_y :: real
  te_lightning :: "nat \<Rightarrow> real"

text \<open>Lines 1486-1500: the player's car from the keys, the AI's car from its controls.\<close>

definition update_player :: "real \<Rightarrow> tick_env \<Rightarrow> Game \<Rightarrow> Game" where
  "update_player dt env g =
     (let keys = te_keys env;
          left = (keys K_a \<or> keys K_LEFT);
          right = (keys K_d \<or> keys K_RIGHT);
          forward = (keys K_w \<or> keys K_UP);
          back = (keys K_s \<or> keys K_DOWN);
          boost = (keys K_SPACE \<or> keys K_LSHIFT);
          p1 = Car_apply_input left right forward back boost dt (g_player g);
          r = Car_update dt (g_level_map g) p1
      in g\<lparr>g_player := fst r, g_level_map := snd r\<rparr>)"

definition update_ai :: "real \<Rightarrow> tick_env \<Rightarrow> Game \<Rightarrow> Game" where
  "update_ai dt env g =
     (let r = get_controls (te_ai env) (g_ai_car g) (g_ball g) (g_level_map g) dt (g_ai_brain g);
          ctl = fst r;
          ai_l = fst ctl; ai_r = fst (snd ctl); ai_f = fst (snd (snd ctl));
          ai_b = fst (snd (snd (snd ctl))); ai_boost = snd (snd (snd (snd ctl)));
          g1 = g\<lparr>g_ai_brain := snd r, g_ai_state := ai_state (snd r)\<rparr>;
          c1 = Car_apply_input ai_l ai_r ai_f ai_b ai_boost dt (g_ai_car g1);
          u = Car_update dt (g_level_map g1) c1
      in g1\<lparr>g_ai_car := fst u, g_level_map := snd u\<rparr>)"

text \<open>Lines 1502-1505: the ball, then its collision with each car.\<close>

definition update_ball :: "real \<Rightarrow> Game \<Rightarrow> Game" where
  "update_ball dt g =
     (let b1 = Ball_update dt (g_level_map g) (g_ball g);
          h1 = car_hit (g_player g) b1;
          h2 = car_hit (g_ai_car g) (fst (snd h1))
      in g\<lparr>g_ball := fst (snd h2), g_player := snd (snd h1), g_ai_car := snd (snd h2)\<rparr>)"

text \<open>Lines 1512-1520: contact of the player's car with a hazard.\<close>

definition update_hazard :: "tick_env \<Rightarrow> Game \<Rightarrow> Game" where
  "update_hazard env g =
     (if check_hazard_hit (g_level_map g) (car_x (g_player g)) (car_y (g_player g))
           (real_of_int (max CAR_W CAR_H div 2))
      then g\<lparr>g_player := (g_player g)
                \<lparr>car_vx := car_vx (g_player g) + py_uniform (- 120) 120 (te_hazard_x env),
                 car_vy := car_vy (g_player g) + py_uniform (- 120) 120 (te_hazard_y env)\<rparr>\<rparr>
      else g)"

text \<open>
  Lines 1526-1537: the goals. \<^verbatim>\<open>_goal_event\<close> sets the state to \<^verbatim>\<open>goal_flash\<close> (its
  flash and particles are presentation).
\<close>

definition update_goals :: "Game \<Rightarrow> Game" where
  "update_goals g =
     (if check_goal (g_goal_l g) (g_ball g) then
        g\<lparr>g_ai_car := (g_ai_car g)\<lparr>car_score := car_score (g_ai_car g) + 1\<rparr>,
          g_combo := 1,
          g_ai_brain := adapt ((g_ai_brain g)
                          \<lparr>ai_goals_scored := ai_goals_scored (g_ai_brain g) + 1\<rparr>),
          g_state := ''goal_flash''\<rparr>
      else if check_goal (g_goal_r g) (g_ball g) then
        g\<lparr>g_player := (g_player g)\<lparr>car_score := car_score (g_player g) + 1\<rparr>,
          g_combo := min (g_combo g + 1) 8,
          g_ai_brain := adapt ((g_ai_brain g)
                          \<lparr>ai_goals_conceded := ai_goals_conceded (g_ai_brain g) + 1\<rparr>),
          g_state := ''goal_flash''\<rparr>
      else g)"

text \<open>Lines 1539-1550: the match timer and the end of the match.\<close>

definition update_timer :: "real \<Rightarrow> Game \<Rightarrow> failure + Game" where
  "update_timer dt g =
     (let g1 = g\<lparr>g_time_left := g_time_left g - dt\<rparr>;
          g2 = (if \<not> g_low_time_warned g1 \<and> g_time_left g1 < 30
                then g1\<lparr>g_low_time_warned := True\<rparr> else g1)
      in if g_time_left g2 \<le> 0 then
           (let g3 = g2\<lparr>g_time_left := 0\<rparr>;
                total = car_score (g_player g3) + car_score (g_ai_car g3)
            in case g_best_scores g3 (g_level_id g3) of
                 None \<Rightarrow> Inl KeyError
               | Some best \<Rightarrow>
                   (let g4 = g3\<lparr>g_best_scores := (g_best_scores g3)(g_level_id g3 \<mapsto> max best total)\<rparr>;
                        w = (if car_score (g_player g4) > car_score (g_ai_car g4) then ''player''
                             else if car_score (g_ai_car g4) > car_score (g_player g4) then ''ai''
                             else ''draw'')
                    in Inr (g4\<lparr>g_winner := Some w, g_state := ''gameover''\<rparr>)))
         else Inr g2)"

definition Game_update :: "real \<Rightarrow> tick_env \<Rightarrow> Game \<Rightarrow> failure + Game" where
  "Game_update dt env g =
     (let g0 = g\<lparr>g_t := g_t g + dt\<rparr>
      in if g_state g0 \<noteq> ''playing'' then Inr g0
         else
           (case update_timer dt
                   (update_goals
                     (update_hazard env
                       (update_ball dt (update_ai dt env (update_player dt env g0))))) of
              Inl e \<Rightarrow> Inl e
            | Inr g1 \<Rightarrow>
                Inr (g1\<lparr>g_level_map := LevelMap_update (te_lightning env) dt (g_level_map g1)\<rparr>)))"

text \<open>
  \<^verbatim>\<open>Game.run\<close> (lines 1639-1644), one iteration: the frame time in milliseconds from
  the clock, capped at 50 ms; the queued events, each with the draws a ball reset would
  make; then the update.
\<close>

fun handle_events :: "'g rng_ops \<Rightarrow> (event \<times> real \<times> real) list \<Rightarrow> Game \<Rightarrow> failure + Game" where
  "handle_events R [] g = Inr g"
| "handle_events R (e # es) g =
     (case handle_event R (snd e) (fst e) g of
        Inl x \<Rightarrow> Inl x
      | Inr g' \<Rightarrow> handle_events R es g')"

definition frame_dt :: "nat \<Rightarrow> real" where
  "frame_dt ms = min (real ms / 1000.0) 0.05"

definition Game_frame ::
  "'g rng_ops \<Rightarrow> nat \<Rightarrow> (event \<times> real \<times> real) list \<Rightarrow> tick_env \<Rightarrow> Game \<Rightarrow> failure + Game" where
  "Game_frame R ms events env g =
     (case handle_events R events g of
        Inl x \<Rightarrow> Inl x
      | Inr g' \<Rightarrow> Game_update (frame_dt ms) env g')"

text \<open>The states of a run: the state after construction, and after any number of frames.\<close>

inductive reachable :: "'g rng_ops \<Rightarrow> Game \<Rightarrow> bool" for R :: "'g rng_ops" where
  start: "Game_new R bd = Inr g \<Longrightarrow> reachable R g"
| frame: "reachable R g \<Longrightarrow> Game_frame R ms events env g = Inr g' \<Longrightarrow> reachable R g'"

subsection \<open>Notions of the specification, and sample states\<close>

text \<open>
  A point on the boundary of a rectangle, as the specification speaks of it: within the
  closed rectangle and on one of the four lines through its edges.
\<close>

definition on_rect_boundary :: "Rect \<Rightarrow> real \<Rightarrow> real \<Rightarrow> bool" where
  "on_rect_boundary r px py =
     (let x0 = real_of_int (rect_x r); x1 = real_of_int (rect_x r + rect_w r);
          y0 = real_of_int (rect_y r); y1 = real_of_int (rect_y r + rect_h r)
      in x0 \<le> px \<and> px \<le> x1 \<and> y0 \<le> py \<and> py \<le> y1 \<and>
         (px = x0 \<or> px = x1 \<or> py = y0 \<or> py = y1))"

text \<open>A ball at rest at a given point, and an arena with no objects in it.\<close>

definition ball_at :: "real \<Rightarrow> real \<Rightarrow> Ball" where
  "ball_at x y = (Ball_reset 0 0)\<lparr>ball_x := x, ball_y := y\<rparr>"

definition empty_level :: LevelMap where
  "empty_level =
     \<lparr>lm_level_id = 0, lm_cfg = LEVELS ! 0, lm_anomalies = [], lm_boost_pads = [],
      lm_asteroids = [], lm_pulse_rings = [], lm_lightning = [], lm_crystal_shards = [],
      lm_gravity_corridors = []\<rparr>"

definition sample_ring :: PulseRing where
  "sample_ring = \<lparr>pr_cx = 400, pr_cy = 300, pr_radius = 100, pr_max_radius = 160,
                   pr_speed = 80, pr_color = (0, 240, 255)\<rparr>"

text \<open>An arena with a nebula around \<open>(300, 200)\<close> and a repulsor far from it.\<close>

definition nebula_level :: LevelMap where
  "nebula_level =
     empty_level\<lparr>lm_anomalies :=
       [\<lparr>ga_x = 300, ga_y = 200, ga_radius = 80, ga_strength = 30, ga_kind = ''nebula''\<rparr>,
        \<lparr>ga_x = 300, ga_y = 600, ga_radius = 60, ga_strength = - 70, ga_kind = ''repulsor''\<rparr>]\<rparr>"

text \<open>An arena with one boost pad at the centre of the screen, and a car resting on it.\<close>

definition pad_level :: LevelMap where
  "pad_level = empty_level\<lparr>lm_boost_pads := [BoostPad_new 640 360]\<rparr>"

definition car_with_boost :: "real \<Rightarrow> Car" where
  "car_with_boost b = (Car_new 640 360 True None)\<lparr>car_boost := b\<rparr>"

text \<open>An asteroid about to cross the left bound, and a car with a given velocity.\<close>

definition edge_asteroid :: MovingAsteroid where
  "edge_asteroid =
     \<lparr>ast_x = 15, ast_y = 300, ast_radius = 14, ast_vx = - 60, ast_vy = 0,
      ast_angle = 0, ast_spin = 1, ast_color = (160, 100, 50)\<rparr>"

definition car_moving :: "real \<Rightarrow> real \<Rightarrow> real \<Rightarrow> real \<Rightarrow> Car" where
  "car_moving x y vx vy = (Car_new x y True None)\<lparr>car_vx := vx, car_vy := vy\<rparr>"

text \<open>
  A step of the match that either starts a match afresh (combo 1, both boost meters full)
  or keeps the combo counter and both boost meters.
\<close>

definition fresh_or_kept :: "Game \<Rightarrow> Game \<Rightarrow> bool" where
  "fresh_or_kept g g' =
     ((g_combo g' = 1 \<and> car_boost (g_player g') = 100 \<and> car_boost (g_ai_car g') = 100) \<or>
      (g_combo g' = g_combo g \<and> car_boost (g_player g') = car_boost (g_player g) \<and>
       car_boost (g_ai_car g') = car_boost (g_ai_car g)))"

text \<open>
  A generator for sample runs: it returns the lower end of every range and the first
  element of every list, and its state never changes. With it, the game as constructed
  (ball draws \<open>1/2\<close>, that is a ball at rest).
\<close>

definition const_rng :: "unit rng_ops" where
  "const_rng =
     \<lparr>rng_Random = (\<lambda>seed. ()),
      rng_randint = (\<lambda>g a b. (a, g)),
      rng_uniform = (\<lambda>g a b. (a, g)),
      rng_choice = (\<lambda>g xs. (hd xs, g)),
      rng_terrain = (\<lambda>level_id g. g)\<rparr>"

definition first_game :: Game where
  "first_game =
     fresh_match (generate const_rng 0 (LEVELS ! 0) ()) (1 / 2, 1 / 2) 0
       (map_of (map (\<lambda>i. (int i, 0)) [0..<length LEVELS])) ''select'' 0 0"

text \<open>
  The arena after a sequence of calls of \<^verbatim>\<open>LevelMap.update\<close>: each tick gives its
  \<open>dt\<close> and the values \<^verbatim>\<open>random()\<close> returns during the call.
\<close>

fun run_updates :: "(real \<times> (nat \<Rightarrow> real)) list \<Rightarrow> LevelMap \<Rightarrow> LevelMap" where
  "run_updates [] lm = lm"
| "run_updates (t # ts) lm = run_updates ts (LevelMap_update (snd t) (fst t) lm)"

text \<open>The arena apart from its lightning nodes.\<close>

definition without_lightning :: "LevelMap \<Rightarrow> LevelMap" where
  "without_lightning lm = lm\<lparr>lm_lightning := []\<rparr>"

text \<open>
  The layout of level 4 (the only one with lightning nodes) from the sample generator,
  and the lightning node it places five times.
\<close>

definition level4 :: LevelMap where
  "level4 = generate const_rng 4 (LEVELS ! 4) ()"

definition node0 :: LightningNode where
  "node0 = \<lparr>ln_x = 150, ln_y = 80, ln_timer = 1.5, ln_active = False, ln_radius = 50\<rparr>"

text \<open>
  Two generators that cannot be told apart by what they return. Their states (of types
  that may differ) are related by \<open>rel\<close>; a method called on related states returns the
  same value from both and leaves related states. For one and the same generator the
  relation is equality.
\<close>

definition draws_agree :: "('a \<Rightarrow> 'b \<Rightarrow> bool) \<Rightarrow> ('a \<Rightarrow> 'v \<times> 'a) \<Rightarrow> ('b \<Rightarrow> 'v \<times> 'b) \<Rightarrow> bool" where
  "draws_agree rel f1 f2 =
     (\<forall>g1 g2. rel g1 g2 \<longrightarrow> fst (f1 g1) = fst (f2 g2) \<and> rel (snd (f1 g1)) (snd (f2 g2)))"

definition same_methods :: "('a \<Rightarrow> 'b \<Rightarrow> bool) \<Rightarrow> 'a rng_ops \<Rightarrow> 'b rng_ops \<Rightarrow> bool" where
  "same_methods rel R1 R2 =
     ((\<forall>a b. draws_agree rel (\<lambda>g. rng_randint R1 g a b) (\<lambda>g. rng_randint R2 g a b)) \<and>
      (\<forall>a b. draws_agree rel (\<lambda>g. rng_uniform R1 g a b) (\<lambda>g. rng_uniform R2 g a b)) \<and>
      (\<forall>xs. draws_agree rel (\<lambda>g. rng_choice R1 g xs) (\<lambda>g. rng_choice R2 g xs)) \<and>
      (\<forall>level_id g1 g2. rel g1 g2 \<longrightarrow>
         rel (rng_terrain R1 level_id g1) (rng_terrain R2 level_id g2)))"

text \<open>
  Two sample generators of that kind. The first counts its calls and returns values that
  cycle through each range with the count; the second returns the same values and also
  records how many draws were made. They agree on every draw when the counts are equal.
\<close>

definition cycle_rng :: "nat rng_ops" where
  "cycle_rng =
     \<lparr>rng_Random = (\<lambda>seed. nat \<bar>seed\<bar>),
      rng_randint = (\<lambda>g a b. (a + int g mod (b - a + 1), Suc g)),
      rng_uniform = (\<lambda>g a b. (a + (b - a) * (real (g mod 8) / 8), Suc g)),
      rng_choice = (\<lambda>g xs. (xs ! (g mod length xs), Suc g)),
      rng_terrain = (\<lambda>level_id g. g + 5)\<rparr>"

definition traced_rng :: "(nat \<times> nat) rng_ops" where
  "traced_rng =
     \<lparr>rng_Random = (\<lambda>seed. (nat \<bar>seed\<bar>, 0)),
      rng_randint = (\<lambda>g a b. (a + int (fst g) mod (b - a + 1), (Suc (fst g), Suc (snd g)))),
      rng_uniform = (\<lambda>g a b. (a + (b - a) * (real (fst g mod 8) / 8), (Suc (fst g), Suc (snd g)))),
      rng_choice = (\<lambda>g xs. (xs ! (fst g mod length xs), (Suc (fst g), Suc (snd g)))),
      rng_terrain = (\<lambda>level_id g. (fst g + 5, snd g))\<rparr>"

definition same_position :: "nat \<Rightarrow> nat \<times> nat \<Rightarrow> bool" where
  "same_position g1 g2 = (fst g2 = g1)"

text \<open>The layout of level 4 drawn from the first of them.\<close>

definition level4_cycle :: LevelMap where
  "level4_cycle =
     generate cycle_rng 4 (LEVELS ! 4) (rng_terrain cycle_rng 4 (rng_Random cycle_rng (4 * 137 + 42)))"

text \<open>Where a lightning node stands and how far it reaches.\<close>

definition node_place :: "LightningNode \<Rightarrow> real \<times> real \<times> real" where
  "node_place node = (ln_x node, ln_y node, ln_radius node)"

section \<open>Properties\<close>

lemmas config_defs =
  SCREEN_W_def SCREEN_H_def BALL_RADIUS_def CAR_W_def CAR_H_def GOAL_W_def GOAL_H_def
  BOOST_MAX_def BOOST_RECHARGE_def BOOST_COST_def BOOST_SPEED_def MAX_SPEED_def

subsection \<open>Adaptive difficulty\<close>

text \<open>
  C7. With \<open>d = goals_scored - goals_conceded\<close>: when \<open>d < -2\<close>, one call of \<open>adapt\<close>
  lowers \<open>aim_noise\<close> by 3 down to the floor 1 and \<open>reaction_delay\<close> by 0.05 down to the
  floor 0; when \<open>d > 2\<close> it raises them by 2 up to 40 and by 0.03 up to 0.6; when
  \<open>-2 \<le> d \<le> 2\<close> the brain is unchanged. For values within their ranges, \<open>aim_noise\<close>
  and \<open>reaction_delay\<close> get strictly smaller exactly when \<open>d < -2\<close> and they are above
  the floor, and strictly larger exactly when \<open>d > 2\<close> and they are below the ceiling.
\<close>

theorem adapt_differential:
  fixes br :: AIBrain
  defines "d \<equiv> ai_goals_scored br - ai_goals_conceded br"
  shows "(d < - 2 \<longrightarrow>
            adapt br = br\<lparr>ai_aim_noise := max 1 (ai_aim_noise br - 3),
                          ai_reaction_delay := max 0 (ai_reaction_delay br - 0.05)\<rparr>) \<and>
         (d > 2 \<longrightarrow>
            adapt br = br\<lparr>ai_aim_noise := min 40 (ai_aim_noise br + 2),
                          ai_reaction_delay := min 0.6 (ai_reaction_delay br + 0.03)\<rparr>) \<and>
         (- 2 \<le> d \<and> d \<le> 2 \<longrightarrow> adapt br = br) \<and>
         (1 \<le> ai_aim_noise br \<and> ai_aim_noise br \<le> 40 \<longrightarrow>
            (ai_aim_noise (adapt br) < ai_aim_noise br \<longleftrightarrow> d < - 2 \<and> 1 < ai_aim_noise br) \<and>
            (ai_aim_noise (adapt br) > ai_aim_noise br \<longleftrightarrow> d > 2 \<and> ai_aim_noise br < 40)) \<and>
         (0 \<le> ai_reaction_delay br \<and> ai_reaction_delay br \<le> 0.6 \<longrightarrow>
            (ai_reaction_delay (adapt br) < ai_reaction_delay br
               \<longleftrightarrow> d < - 2 \<and> 0 < ai_reaction_delay br) \<and>
            (ai_reaction_delay (adapt br) > ai_reaction_delay br
               \<longleftrightarrow> d > 2 \<and> ai_reaction_delay br < 0.6))"
  unfolding d_def by (auto simp add: adapt_def Let_def)

theorem adapt_differential_witness:
  "adapt ((AIBrain_new MEDIUM)\<lparr>ai_goals_conceded := 3\<rparr>) =
     (AIBrain_new MEDIUM)\<lparr>ai_goals_conceded := 3, ai_aim_noise := 12, ai_reaction_delay := 0.2\<rparr> \<and>
   adapt ((AIBrain_new MEDIUM)\<lparr>ai_goals_scored := 3\<rparr>) =
     (AIBrain_new MEDIUM)\<lparr>ai_goals_scored := 3, ai_aim_noise := 17, ai_reaction_delay := 0.28\<rparr> \<and>
   adapt ((AIBrain_new MEDIUM)\<lparr>ai_goals_scored := 2\<rparr>) = (AIBrain_new MEDIUM)\<lparr>ai_goals_scored := 2\<rparr>"
  using adapt_differential[of "(AIBrain_new MEDIUM)\<lparr>ai_goals_conceded := 3\<rparr>"]
        adapt_differential[of "(AIBrain_new MEDIUM)\<lparr>ai_goals_scored := 3\<rparr>"]
        adapt_differential[of "(AIBrain_new MEDIUM)\<lparr>ai_goals_scored := 2\<rparr>"]
  by (simp add: AIBrain_new_def)

subsection \<open>Ball against car\<close>

text \<open>
  C10. \<open>car_hit\<close> reports a hit exactly when the distance \<open>d\<close> between the centres of
  ball and car satisfies \<open>0.1 < d < BALL_RADIUS + max(CAR_W, CAR_H) // 2\<close>, which is 34;
  when it reports none (the exact overlap \<open>d \<le> 0.1\<close> included), ball and car are
  returned as they were.
\<close>

theorem car_hit_iff:
  fixes car :: Car and b :: Ball
  defines "d \<equiv> sqrt ((ball_x b - car_x car)\<^sup>2 + (ball_y b - car_y car)\<^sup>2)"
  shows "(fst (car_hit car b) \<longleftrightarrow>
            0.1 < d \<and> d < real_of_int (BALL_RADIUS + max CAR_W CAR_H div 2)) \<and>
         real_of_int (BALL_RADIUS + max CAR_W CAR_H div 2) = 34 \<and>
         (\<not> fst (car_hit car b) \<longrightarrow> snd (car_hit car b) = (b, car))"
  unfolding d_def by (auto simp add: car_hit_def Let_def config_defs)

theorem car_hit_witness:
  "\<not> fst (car_hit (Car_new 640 360 True None) (Ball_reset 50 (- 20))) \<and>
   snd (car_hit (Car_new 640 360 True None) (Ball_reset 50 (- 20))) =
     (Ball_reset 50 (- 20), Car_new 640 360 True None) \<and>
   fst (car_hit (Car_new 630 360 True None) (Ball_reset 50 (- 20)))"
  using car_hit_iff[of "Car_new 640 360 True None" "Ball_reset 50 (- 20)"]
        car_hit_iff[of "Car_new 630 360 True None" "Ball_reset 50 (- 20)"]
  by (simp add: Car_new_def Ball_reset_def config_defs Let_def)

subsection \<open>Hazard contact\<close>

lemma lightning_hit_iff:
  "lightning_hit nodes ox oy radius \<longleftrightarrow>
     (\<exists>node \<in> set nodes. ln_active node \<and>
        sqrt ((ox - ln_x node)\<^sup>2 + (oy - ln_y node)\<^sup>2) < ln_radius node + radius)"
  by (induction nodes) (auto simp: Let_def)

lemma pulse_hit_iff:
  "pulse_hit prs ox oy radius \<longleftrightarrow>
     (\<exists>pr \<in> set prs.
        \<bar>sqrt ((ox - pr_cx pr)\<^sup>2 + (oy - pr_cy pr)\<^sup>2) - pr_radius pr\<bar> < 10 + radius)"
  by (induction prs) (auto simp: Let_def)

text \<open>
  C9. \<open>check_hazard_hit\<close> at a position, for a body of a given radius, is true exactly
  when some lightning node is active and closer than its radius plus the body's, or the
  distance \<open>d\<close> to the centre of some pulse ring satisfies \<open>|d - ring.radius| < 10 + radius\<close>
  (the band of the ring, not its interior).
\<close>

theorem check_hazard_hit_iff:
  "check_hazard_hit lm ox oy radius \<longleftrightarrow>
     (\<exists>node \<in> set (lm_lightning lm). ln_active node \<and>
        sqrt ((ox - ln_x node)\<^sup>2 + (oy - ln_y node)\<^sup>2) < ln_radius node + radius) \<or>
     (\<exists>pr \<in> set (lm_pulse_rings lm).
        \<bar>sqrt ((ox - pr_cx pr)\<^sup>2 + (oy - pr_cy pr)\<^sup>2) - pr_radius pr\<bar> < 10 + radius)"
  by (simp add: check_hazard_hit_def lightning_hit_iff pulse_hit_iff)

theorem check_hazard_hit_witness:
  "\<not> check_hazard_hit (empty_level\<lparr>lm_pulse_rings := [sample_ring]\<rparr>) 400 300 18 \<and>
   check_hazard_hit (empty_level\<lparr>lm_pulse_rings := [sample_ring]\<rparr>) 500 300 18"
  using check_hazard_hit_iff[of "empty_level\<lparr>lm_pulse_rings := [sample_ring]\<rparr>" 400 300 18]
        check_hazard_hit_iff[of "empty_level\<lparr>lm_pulse_rings := [sample_ring]\<rparr>" 500 300 18]
  by (simp add: empty_level_def sample_ring_def)

subsection \<open>Goal containment\<close>

lemma py_int_less_iff: "0 \<le> x \<Longrightarrow> py_int x < n \<longleftrightarrow> x < real_of_int n"
  by (simp add: py_int_def floor_less_iff)

lemma py_int_ge_iff: "0 \<le> x \<Longrightarrow> n \<le> py_int x \<longleftrightarrow> real_of_int n \<le> x"
  by (simp add: py_int_def le_floor_iff)

text \<open>
  C8, as the code has it. The containment test is pygame's \<open>collidepoint\<close> on the
  truncated coordinates, which takes the left and the top edge of the rectangle in and
  leaves the right and the bottom edge out: a ball on a boundary point of a goal zone's
  rectangle is a goal exactly when the point is to the left of the right edge and above
  the bottom edge.
\<close>

theorem check_goal_boundary:
  assumes "gz = GoalZone_new side cfg"
    and "on_rect_boundary (gz_rect gz) (ball_x b) (ball_y b)"
  shows "check_goal gz b \<longleftrightarrow>
           ball_x b < real_of_int (rect_x (gz_rect gz) + rect_w (gz_rect gz)) \<and>
           ball_y b < real_of_int (rect_y (gz_rect gz) + rect_h (gz_rect gz))"
proof -
  have x0: "0 \<le> ball_x b" and y0: "0 \<le> ball_y b"
    using assms
    by (auto simp: on_rect_boundary_def GoalZone_new_def Let_def config_defs split: if_splits)
  have inside: "real_of_int (rect_x (gz_rect gz)) \<le> ball_x b"
    "real_of_int (rect_y (gz_rect gz)) \<le> ball_y b"
    using assms(2) by (auto simp: on_rect_boundary_def Let_def)
  show ?thesis
    unfolding check_goal_def collidepoint_def
    using inside
    by (simp add: py_int_less_iff[OF x0] py_int_less_iff[OF y0]
        py_int_ge_iff[OF x0] py_int_ge_iff[OF y0])
qed

theorem check_goal_boundary_witness:
  "on_rect_boundary (gz_rect (GoalZone_new ''left'' (LEVELS ! 0))) 0 300 \<and>
   check_goal (GoalZone_new ''left'' (LEVELS ! 0)) (ball_at 0 300)"
proof -
  have b: "on_rect_boundary (gz_rect (GoalZone_new ''left'' (LEVELS ! 0)))
             (ball_x (ball_at 0 300)) (ball_y (ball_at 0 300))"
    by (simp add: on_rect_boundary_def GoalZone_new_def Let_def config_defs ball_at_def)
  from check_goal_boundary[OF refl b] b show ?thesis
    by (simp add: GoalZone_new_def Let_def config_defs ball_at_def)
qed

text \<open>
  The claim as stated fails on the right edge: the point \<open>(22, 300)\<close> lies on the boundary
  of the left goal's rectangle \<open>[0, 22] \<times> [285, 435]\<close>, and a ball there is no goal.
\<close>

theorem check_goal_right_edge_counterexample:
  "on_rect_boundary (gz_rect (GoalZone_new ''left'' (LEVELS ! 0))) 22 300 \<and>
   \<not> check_goal (GoalZone_new ''left'' (LEVELS ! 0)) (ball_at 22 300)"
  by (simp add: on_rect_boundary_def GoalZone_new_def Let_def config_defs ball_at_def
      check_goal_def collidepoint_def py_int_def)

subsection \<open>Field forces\<close>

lemma v2_len_scale: "v2_len (k * vx, k * vy) = \<bar>k\<bar> * v2_len (vx, vy)"
proof -
  have "(k * vx)\<^sup>2 + (k * vy)\<^sup>2 = k\<^sup>2 * (vx\<^sup>2 + vy\<^sup>2)"
    by (simp add: power_mult_distrib distrib_left)
  then show ?thesis
    by (simp add: v2_len_def real_sqrt_mult)
qed

lemma v2_len_nonneg: "0 \<le> v2_len v"
  by (simp add: v2_len_def)

lemma anomaly_step_scales:
  assumes "0 \<le> dt" "dt \<le> 0.05"
    and "ga_kind a \<noteq> ''nebula'' \<longrightarrow>
          \<not> max 1 (sqrt ((ga_x a - ox)\<^sup>2 + (ga_y a - oy)\<^sup>2)) < ga_radius a * 3"
  shows "\<exists>k. 0 \<le> k \<and> k \<le> 1 \<and> anomaly_step ox oy mass dt a v = (k * fst v, k * snd v)"
proof (cases "ga_kind a = ''nebula'' \<and>
              max 1 (sqrt ((ga_x a - ox)\<^sup>2 + (ga_y a - oy)\<^sup>2)) < ga_radius a")
  case True
  have "0 \<le> 1 - 0.35 * dt" "1 - 0.35 * dt \<le> 1" using assms(1,2) by simp_all
  moreover have "anomaly_step ox oy mass dt a v
                   = ((1 - 0.35 * dt) * fst v, (1 - 0.35 * dt) * snd v)"
    using True by (simp add: anomaly_step_def Let_def mult.commute)
  ultimately show ?thesis by blast
next
  case False
  then have "anomaly_step ox oy mass dt a v = (1 * fst v, 1 * snd v)"
    using assms(3) by (auto simp add: anomaly_step_def Let_def)
  then show ?thesis by (intro exI[of _ 1]) simp
qed

lemma fold_anomaly_scales:
  assumes "0 \<le> dt" "dt \<le> 0.05"
    and "\<forall>a \<in> set as. ga_kind a \<noteq> ''nebula'' \<longrightarrow>
          \<not> max 1 (sqrt ((ga_x a - ox)\<^sup>2 + (ga_y a - oy)\<^sup>2)) < ga_radius a * 3"
  shows "\<exists>k. 0 \<le> k \<and> k \<le> 1 \<and>
           fold (anomaly_step ox oy mass dt) as v = (k * fst v, k * snd v)"
  using assms(3)
proof (induction as arbitrary: v)
  case Nil
  show ?case by (intro exI[of _ 1]) simp
next
  case (Cons a as)
  obtain k where k: "0 \<le> k" "k \<le> 1" "anomaly_step ox oy mass dt a v = (k * fst v, k * snd v)"
    using anomaly_step_scales[OF assms(1,2), of a ox oy mass v] Cons.prems by auto
  obtain l where l: "0 \<le> l" "l \<le> 1"
    "fold (anomaly_step ox oy mass dt) as (k * fst v, k * snd v)
       = (l * (k * fst v), l * (k * snd v))"
    using Cons.IH[of "(k * fst v, k * snd v)"] Cons.prems by auto
  have "0 \<le> l * k" using k l by simp
  moreover have "l * k \<le> 1" using k l by (simp add: mult_le_one)
  moreover have "fold (anomaly_step ox oy mass dt) (a # as) v
                   = ((l * k) * fst v, (l * k) * snd v)"
    using k l by (simp add: mult.assoc)
  ultimately show ?case by blast
qed

lemma fold_corridor_outside:
  assumes "\<forall>gc \<in> set gcs.
             \<not> (\<bar>ox - gc_x gc\<bar> < gc_width gc / 2 \<and> \<bar>oy - gc_y gc\<bar> < gc_height gc / 2)"
  shows "fold (corridor_step ox oy mass dt) gcs v = v"
  using assms by (induction gcs arbitrary: v) (auto simp: corridor_step_def Let_def)

text \<open>
  C5. For \<open>0 \<le> dt \<le> 0.05\<close>: when every anomaly that is not a nebula is out of range of
  the position (its range being three times its radius, on the distance floored at 1), and
  the position lies in no gravity corridor, the velocity \<open>apply_gravity\<close> returns is no
  longer than the velocity passed in.
\<close>

theorem nebula_only_damps:
  assumes "0 \<le> dt" "dt \<le> 0.05"
    and "\<forall>a \<in> set (lm_anomalies lm). ga_kind a \<noteq> ''nebula'' \<longrightarrow>
          \<not> max 1 (sqrt ((ga_x a - ox)\<^sup>2 + (ga_y a - oy)\<^sup>2)) < ga_radius a * 3"
    and "\<forall>gc \<in> set (lm_gravity_corridors lm).
          \<not> (\<bar>ox - gc_x gc\<bar> < gc_width gc / 2 \<and> \<bar>oy - gc_y gc\<bar> < gc_height gc / 2)"
  shows "v2_len (apply_gravity lm ox oy vx vy mass dt) \<le> v2_len (vx, vy)"
proof -
  obtain k where k: "0 \<le> k" "k \<le> 1"
    "fold (anomaly_step ox oy mass dt) (lm_anomalies lm) (vx, vy) = (k * vx, k * vy)"
    using fold_anomaly_scales[OF assms(1,2,3), of mass "(vx, vy)"] by auto
  have "v2_len (apply_gravity lm ox oy vx vy mass dt) = \<bar>k\<bar> * v2_len (vx, vy)"
    unfolding apply_gravity_def fold_corridor_outside[OF assms(4)] k(3)
    by (rule v2_len_scale)
  also have "\<dots> \<le> 1 * v2_len (vx, vy)"
    using k by (intro mult_right_mono) (auto simp: v2_len_nonneg)
  finally show ?thesis by simp
qed

theorem nebula_only_damps_witness:
  "v2_len (apply_gravity nebula_level 300 200 120 (- 50) 1 0.016) \<le> v2_len (120, - 50)"
proof -
  have far: "(180::real) \<le> sqrt 160000"
    by (rule real_le_rsqrt) simp
  have "\<forall>a \<in> set (lm_anomalies nebula_level). ga_kind a \<noteq> ''nebula'' \<longrightarrow>
          \<not> max 1 (sqrt ((ga_x a - 300)\<^sup>2 + (ga_y a - 200)\<^sup>2)) < ga_radius a * 3"
    using far by (simp add: nebula_level_def empty_level_def)
  moreover have "\<forall>gc \<in> set (lm_gravity_corridors nebula_level).
          \<not> (\<bar>300 - gc_x gc\<bar> < gc_width gc / 2 \<and> \<bar>200 - gc_y gc\<bar> < gc_height gc / 2)"
    by (simp add: nebula_level_def empty_level_def)
  ultimately show ?thesis
    by (intro nebula_only_damps) simp_all
qed

subsection \<open>Facts about the steps of a car's tick\<close>

lemma Car_turn_boost: "car_boost (Car_turn l r dt c) = car_boost c"
  by (simp add: Car_turn_def Let_def)

lemma Car_thrust_boost: "car_boost (Car_thrust f b dt c) = car_boost c"
  by (simp add: Car_thrust_def Let_def)

lemma Car_speed_cap_keeps:
  "car_boost (Car_speed_cap c) = car_boost c" "car_boosting (Car_speed_cap c) = car_boosting c"
  by (simp_all add: Car_speed_cap_def Let_def)

lemma Car_drag_keeps:
  "car_boost (Car_drag f b c) = car_boost c" "car_boosting (Car_drag f b c) = car_boosting c"
  by (simp_all add: Car_drag_def Let_def)

lemma Car_boost_step_boost:
  "car_boost (Car_boost_step forward boost_key dt c) =
     (if boost_key \<and> car_boost c > 5 \<and> forward then car_boost c - BOOST_COST * dt
      else min BOOST_MAX (car_boost c + BOOST_RECHARGE * dt))"
  "car_boosting (Car_boost_step forward boost_key dt c) = (boost_key \<and> car_boost c > 5 \<and> forward)"
  by (simp_all add: Car_boost_step_def Let_def)

lemma Car_apply_input_boost:
  "car_boost (Car_apply_input left right forward back boost_key dt c) =
     (if boost_key \<and> car_boost c > 5 \<and> forward then car_boost c - BOOST_COST * dt
      else min BOOST_MAX (car_boost c + BOOST_RECHARGE * dt))"
  unfolding Car_apply_input_def Car_drag_keeps Car_speed_cap_keeps Car_boost_step_boost
    Car_thrust_boost Car_turn_boost by (rule refl)

lemma Car_apply_input_boosting:
  "car_boosting (Car_apply_input left right forward back boost_key dt c) =
     (boost_key \<and> car_boost c > 5 \<and> forward)"
  unfolding Car_apply_input_def Car_drag_keeps Car_speed_cap_keeps Car_boost_step_boost
    Car_thrust_boost Car_turn_boost by (rule refl)

lemma Car_apply_input_range:
  assumes "0 \<le> dt" "dt \<le> 0.05" "0 \<le> car_boost c" "car_boost c \<le> 100"
  shows "0 \<le> car_boost (Car_apply_input l r f b k dt c)"
    and "car_boost (Car_apply_input l r f b k dt c) \<le> 100"
  using assms by (auto simp add: Car_apply_input_boost config_defs)

lemma Car_clamp_left_sel:
  "car_x (Car_clamp_left c) = (if car_x c < 30 then 30 else car_x c)"
  "car_vx (Car_clamp_left c) = (if car_x c < 30 then \<bar>car_vx c\<bar> * 0.6 else car_vx c)"
  "car_y (Car_clamp_left c) = car_y c" "car_vy (Car_clamp_left c) = car_vy c"
  "car_boost (Car_clamp_left c) = car_boost c"
  by (simp_all add: Car_clamp_left_def car_pad_def)

lemma Car_clamp_right_sel:
  "car_x (Car_clamp_right c) = (if car_x c > 1250 then 1250 else car_x c)"
  "car_vx (Car_clamp_right c) = (if car_x c > 1250 then - \<bar>car_vx c\<bar> * 0.6 else car_vx c)"
  "car_y (Car_clamp_right c) = car_y c" "car_vy (Car_clamp_right c) = car_vy c"
  "car_boost (Car_clamp_right c) = car_boost c"
  by (simp_all add: Car_clamp_right_def car_pad_def SCREEN_W_def)

lemma Car_clamp_top_sel:
  "car_y (Car_clamp_top c) = (if car_y c < 30 then 30 else car_y c)"
  "car_vy (Car_clamp_top c) = (if car_y c < 30 then \<bar>car_vy c\<bar> * 0.6 else car_vy c)"
  "car_x (Car_clamp_top c) = car_x c" "car_vx (Car_clamp_top c) = car_vx c"
  "car_boost (Car_clamp_top c) = car_boost c"
  by (simp_all add: Car_clamp_top_def car_pad_def)

lemma Car_clamp_bottom_sel:
  "car_y (Car_clamp_bottom c) = (if car_y c > 690 then 690 else car_y c)"
  "car_vy (Car_clamp_bottom c) = (if car_y c > 690 then - \<bar>car_vy c\<bar> * 0.6 else car_vy c)"
  "car_x (Car_clamp_bottom c) = car_x c" "car_vx (Car_clamp_bottom c) = car_vx c"
  "car_boost (Car_clamp_bottom c) = car_boost c"
  by (simp_all add: Car_clamp_bottom_def car_pad_def SCREEN_H_def)

lemmas Car_clamp_sel = Car_clamp_left_sel Car_clamp_right_sel Car_clamp_top_sel Car_clamp_bottom_sel

lemma Car_clamp_x:
  "car_x (Car_clamp c) = (if car_x c < 30 then 30 else if car_x c > 1250 then 1250 else car_x c)"
  by (simp add: Car_clamp_def Car_clamp_sel)

lemma Car_clamp_y:
  "car_y (Car_clamp c) = (if car_y c < 30 then 30 else if car_y c > 690 then 690 else car_y c)"
  by (simp add: Car_clamp_def Car_clamp_sel)

lemma Car_clamp_vx:
  "car_vx (Car_clamp c) =
     (if car_x c < 30 then \<bar>car_vx c\<bar> * 0.6 else if car_x c > 1250 then - \<bar>car_vx c\<bar> * 0.6
      else car_vx c)"
  by (simp add: Car_clamp_def Car_clamp_sel)

lemma Car_clamp_vy:
  "car_vy (Car_clamp c) =
     (if car_y c < 30 then \<bar>car_vy c\<bar> * 0.6 else if car_y c > 690 then - \<bar>car_vy c\<bar> * 0.6
      else car_vy c)"
  by (simp add: Car_clamp_def Car_clamp_sel)

lemma Car_clamp_boost: "car_boost (Car_clamp c) = car_boost c"
  by (simp add: Car_clamp_def Car_clamp_sel)

lemma fold_asteroid_keeps:
  "car_x (fold Car_asteroid_step asts c) = car_x c"
  "car_y (fold Car_asteroid_step asts c) = car_y c"
  "car_boost (fold Car_asteroid_step asts c) = car_boost c"
  by (induction asts arbitrary: c) (simp_all add: Car_asteroid_step_def Let_def)

lemma Car_invincible_tick_keeps:
  "car_x (Car_invincible_tick dt c) = car_x c"
  "car_y (Car_invincible_tick dt c) = car_y c"
  "car_boost (Car_invincible_tick dt c) = car_boost c"
  by (simp_all add: Car_invincible_tick_def)

lemma Car_pads_keeps:
  "car_x (fst (Car_pads lm c)) = car_x c" "car_y (fst (Car_pads lm c)) = car_y c"
  by (simp_all add: Car_pads_def Let_def)

lemma Car_move_boost: "car_boost (Car_move dt lm c) = car_boost c"
  by (simp add: Car_move_def Let_def)

lemma Car_push_trail_keeps:
  "car_x (Car_push_trail c) = car_x c" "car_y (Car_push_trail c) = car_y c"
  "car_vx (Car_push_trail c) = car_vx c" "car_vy (Car_push_trail c) = car_vy c"
  "car_boost (Car_push_trail c) = car_boost c"
  by (simp_all add: Car_push_trail_def)

lemma pickup_pads_fst:
  "fst (pickup_pads x y bps boost) =
     map (\<lambda>bp. if pad_in_reach x y bp then bp\<lparr>bp_active := False, bp_cooldown := 5\<rparr> else bp) bps"
  by (induction bps arbitrary: boost) (simp_all add: Let_def)

lemma pickup_pads_snd:
  "snd (pickup_pads x y bps boost) =
     (if filter (pad_in_reach x y) bps = [] then boost
      else min BOOST_MAX (boost + 45 * real (length (filter (pad_in_reach x y) bps))))"
proof (induction bps arbitrary: boost)
  case Nil
  then show ?case by simp
next
  case (Cons bp bps)
  show ?case
  proof (cases "pad_in_reach x y bp")
    case True
    show ?thesis
    proof (cases "filter (pad_in_reach x y) bps = []")
      case True
      with \<open>pad_in_reach x y bp\<close> show ?thesis by (simp add: Let_def Cons.IH)
    next
      case False
      have "min BOOST_MAX (min BOOST_MAX (boost + 45) + 45 * real (length (filter (pad_in_reach x y) bps)))
            = min BOOST_MAX (boost + 45 + 45 * real (length (filter (pad_in_reach x y) bps)))"
        using False by (auto simp: min_def BOOST_MAX_def)
      with False \<open>pad_in_reach x y bp\<close> show ?thesis
        by (simp add: Let_def Cons.IH algebra_simps)
    qed
  next
    case False
    then show ?thesis by (simp add: Let_def Cons.IH)
  qed
qed

lemma pickup_pads_range:
  assumes "boost \<le> 100"
  shows "boost \<le> snd (pickup_pads x y bps boost)" "snd (pickup_pads x y bps boost) \<le> 100"
  using assms by (auto simp add: pickup_pads_snd BOOST_MAX_def)

lemma Car_update_boost:
  "car_boost (fst (Car_update dt lm c)) =
     snd (pickup_pads (car_x (fst (Car_update dt lm c))) (car_y (fst (Car_update dt lm c)))
            (lm_boost_pads lm) (car_boost c))"
  by (simp add: Car_update_def Car_pads_def Let_def Car_invincible_tick_keeps fold_asteroid_keeps
      Car_clamp_boost Car_push_trail_keeps Car_move_boost)

lemma Car_update_pads:
  "lm_boost_pads (snd (Car_update dt lm c)) =
     fst (pickup_pads (car_x (fst (Car_update dt lm c))) (car_y (fst (Car_update dt lm c)))
            (lm_boost_pads lm) (car_boost c))"
  by (simp add: Car_update_def Car_pads_def Let_def Car_invincible_tick_keeps fold_asteroid_keeps
      Car_clamp_boost Car_push_trail_keeps Car_move_boost pickup_pads_fst)

lemma Car_update_range:
  assumes "0 \<le> car_boost c" "car_boost c \<le> 100"
  shows "car_boost c \<le> car_boost (fst (Car_update dt lm c))"
    and "car_boost (fst (Car_update dt lm c)) \<le> 100"
  unfolding Car_update_boost using pickup_pads_range[OF assms(2)] by auto

lemma Car_update_position:
  "car_x (fst (Car_update dt lm c)) = car_x (Car_clamp (Car_push_trail (Car_move dt lm c)))"
  "car_y (fst (Car_update dt lm c)) = car_y (Car_clamp (Car_push_trail (Car_move dt lm c)))"
  by (simp_all add: Car_update_def Car_pads_keeps Car_invincible_tick_keeps fold_asteroid_keeps)

subsection \<open>Boost pads\<close>

text \<open>
  C1, as the code has it. Let \<open>(x', y')\<close> be the position of the car when its update
  reaches the loop over the boost pads, which is its position after the update. Every pad
  that is active and closer to \<open>(x', y')\<close> than \<open>pad.radius + 16\<close> ends the update
  inactive with cooldown 5.0, every other pad is unchanged, and the boost meter is raised
  by 45 for each pad taken and capped at 100: with \<open>k \<ge> 1\<close> pads taken it ends at
  \<open>min(100, boost + 45 k)\<close>, which is a full meter only from \<open>boost \<ge> 100 - 45 k\<close> on.
\<close>

theorem boost_pad_pickup:
  fixes dt :: real and lm :: LevelMap and c :: Car
  defines "c' \<equiv> fst (Car_update dt lm c)"
    and "pads' \<equiv> lm_boost_pads (snd (Car_update dt lm c))"
  defines "k \<equiv> length (filter (pad_in_reach (car_x c') (car_y c')) (lm_boost_pads lm))"
  shows "length pads' = length (lm_boost_pads lm) \<and>
         (\<forall>i < length (lm_boost_pads lm).
            (pad_in_reach (car_x c') (car_y c') (lm_boost_pads lm ! i) \<longrightarrow>
               pads' ! i = (lm_boost_pads lm ! i)\<lparr>bp_active := False, bp_cooldown := 5\<rparr>) \<and>
            (\<not> pad_in_reach (car_x c') (car_y c') (lm_boost_pads lm ! i) \<longrightarrow>
               pads' ! i = lm_boost_pads lm ! i)) \<and>
         car_boost c' = (if k = 0 then car_boost c else min 100 (car_boost c + 45 * real k))"
proof -
  have pads: "pads' = map (\<lambda>bp. if pad_in_reach (car_x c') (car_y c') bp
                                 then bp\<lparr>bp_active := False, bp_cooldown := 5\<rparr> else bp)
                         (lm_boost_pads lm)"
    unfolding pads'_def c'_def Car_update_pads pickup_pads_fst by (rule refl)
  have boost: "car_boost c' = (if k = 0 then car_boost c else min 100 (car_boost c + 45 * real k))"
    unfolding k_def c'_def Car_update_boost[of dt lm c] pickup_pads_snd
    by (simp add: BOOST_MAX_def)
  show ?thesis using boost by (simp add: pads)
qed

lemma car_on_pad_position:
  "car_x (fst (Car_update dt pad_level (car_with_boost b))) = 640 \<and>
   car_y (fst (Car_update dt pad_level (car_with_boost b))) = 360"
  by (simp add: Car_update_position Car_clamp_x Car_clamp_y Car_push_trail_keeps Car_move_def
      Let_def apply_gravity_def pad_level_def empty_level_def car_with_boost_def Car_new_def)

lemma pad_level_reach: "pad_in_reach 640 360 (BoostPad_new 640 360)"
  by (simp add: pad_in_reach_def BoostPad_new_def)

theorem boost_pad_pickup_witness:
  "lm_boost_pads (snd (Car_update 0.016 pad_level (car_with_boost 80))) =
     [(BoostPad_new 640 360)\<lparr>bp_active := False, bp_cooldown := 5\<rparr>] \<and>
   car_boost (fst (Car_update 0.016 pad_level (car_with_boost 80))) = 100"
proof -
  have pads: "lm_boost_pads pad_level = [BoostPad_new 640 360]"
    by (simp add: pad_level_def empty_level_def)
  have b: "car_boost (car_with_boost 80) = 80" by (simp add: car_with_boost_def)
  have len: "length (lm_boost_pads (snd (Car_update 0.016 pad_level (car_with_boost 80)))) = 1"
    and hd: "lm_boost_pads (snd (Car_update 0.016 pad_level (car_with_boost 80))) ! 0 =
             (BoostPad_new 640 360)\<lparr>bp_active := False, bp_cooldown := 5\<rparr>"
    and boost: "car_boost (fst (Car_update 0.016 pad_level (car_with_boost 80))) = 100"
    using boost_pad_pickup[of "0.016" pad_level "car_with_boost 80"]
    by (simp_all add: car_on_pad_position pads pad_level_reach b)
  from len hd have "lm_boost_pads (snd (Car_update 0.016 pad_level (car_with_boost 80))) =
     [(BoostPad_new 640 360)\<lparr>bp_active := False, bp_cooldown := 5\<rparr>]"
    by (cases "lm_boost_pads (snd (Car_update 0.016 pad_level (car_with_boost 80)))") auto
  with boost show ?thesis by simp
qed

lemma car_on_pad_boost:
  "car_boost (fst (Car_update dt pad_level (car_with_boost b))) = min 100 (b + 45)"
proof -
  have pads: "lm_boost_pads pad_level = [BoostPad_new 640 360]"
    by (simp add: pad_level_def empty_level_def)
  have b: "car_boost (car_with_boost b) = b" by (simp add: car_with_boost_def)
  show ?thesis
    unfolding Car_update_boost[of dt pad_level "car_with_boost b"]
    by (simp add: car_on_pad_position pickup_pads_snd pads pad_level_reach b BOOST_MAX_def)
qed

text \<open>
  The claim as stated fails on the meter: a car at rest on the centre pad with 10 in its
  meter, below the cap, ends the update with 55 and not with 100.
\<close>

theorem boost_pad_partial_refill_counterexample:
  "pad_in_reach (car_x (fst (Car_update 0.016 pad_level (car_with_boost 10))))
                (car_y (fst (Car_update 0.016 pad_level (car_with_boost 10))))
                (lm_boost_pads pad_level ! 0) \<and>
   car_boost (car_with_boost 10) < 100 \<and>
   car_boost (fst (Car_update 0.016 pad_level (car_with_boost 10))) = 55"
proof -
  have pads: "lm_boost_pads pad_level = [BoostPad_new 640 360]"
    by (simp add: pad_level_def empty_level_def)
  have b: "car_boost (car_with_boost 10) = 10" by (simp add: car_with_boost_def)
  show ?thesis
    by (simp add: car_on_pad_position car_on_pad_boost pads pad_level_reach b)
qed

subsection \<open>Bounds\<close>

lemma Ball_clamp_left_sel:
  "ball_x (Ball_clamp_left b) = (if ball_x b < 16 then 16 else ball_x b)"
  "ball_vx (Ball_clamp_left b) = (if ball_x b < 16 then \<bar>ball_vx b\<bar> * 0.9 else ball_vx b)"
  "ball_y (Ball_clamp_left b) = ball_y b" "ball_vy (Ball_clamp_left b) = ball_vy b"
  by (simp_all add: Ball_clamp_left_def BALL_RADIUS_def)

lemma Ball_clamp_right_sel:
  "ball_x (Ball_clamp_right b) = (if ball_x b > 1264 then 1264 else ball_x b)"
  "ball_vx (Ball_clamp_right b) = (if ball_x b > 1264 then - \<bar>ball_vx b\<bar> * 0.9 else ball_vx b)"
  "ball_y (Ball_clamp_right b) = ball_y b" "ball_vy (Ball_clamp_right b) = ball_vy b"
  by (simp_all add: Ball_clamp_right_def BALL_RADIUS_def SCREEN_W_def)

lemma Ball_clamp_top_sel:
  "ball_y (Ball_clamp_top b) = (if ball_y b < 16 then 16 else ball_y b)"
  "ball_vy (Ball_clamp_top b) = (if ball_y b < 16 then \<bar>ball_vy b\<bar> * 0.9 else ball_vy b)"
  "ball_x (Ball_clamp_top b) = ball_x b" "ball_vx (Ball_clamp_top b) = ball_vx b"
  by (simp_all add: Ball_clamp_top_def BALL_RADIUS_def)

lemma Ball_clamp_bottom_sel:
  "ball_y (Ball_clamp_bottom b) = (if ball_y b > 704 then 704 else ball_y b)"
  "ball_vy (Ball_clamp_bottom b) = (if ball_y b > 704 then - \<bar>ball_vy b\<bar> * 0.9 else ball_vy b)"
  "ball_x (Ball_clamp_bottom b) = ball_x b" "ball_vx (Ball_clamp_bottom b) = ball_vx b"
  by (simp_all add: Ball_clamp_bottom_def BALL_RADIUS_def SCREEN_H_def)

lemmas Ball_clamp_sel =
  Ball_clamp_left_sel Ball_clamp_right_sel Ball_clamp_top_sel Ball_clamp_bottom_sel

lemma Ball_clamp_x:
  "ball_x (Ball_clamp b) = (if ball_x b < 16 then 16 else if ball_x b > 1264 then 1264 else ball_x b)"
  by (simp add: Ball_clamp_def Ball_clamp_sel)

lemma Ball_clamp_y:
  "ball_y (Ball_clamp b) = (if ball_y b < 16 then 16 else if ball_y b > 704 then 704 else ball_y b)"
  by (simp add: Ball_clamp_def Ball_clamp_sel)

lemma Ball_clamp_vx:
  "ball_vx (Ball_clamp b) =
     (if ball_x b < 16 then \<bar>ball_vx b\<bar> * 0.9 else if ball_x b > 1264 then - \<bar>ball_vx b\<bar> * 0.9
      else ball_vx b)"
  by (simp add: Ball_clamp_def Ball_clamp_sel)

lemma Ball_clamp_vy:
  "ball_vy (Ball_clamp b) =
     (if ball_y b < 16 then \<bar>ball_vy b\<bar> * 0.9 else if ball_y b > 704 then - \<bar>ball_vy b\<bar> * 0.9
      else ball_vy b)"
  by (simp add: Ball_clamp_def Ball_clamp_sel)

lemma asteroid_tick_fields:
  "ast_x (asteroid_tick dt a) = ast_x a + ast_vx a * dt"
  "ast_y (asteroid_tick dt a) = ast_y a + ast_vy a * dt"
  "ast_radius (asteroid_tick dt a) = ast_radius a"
  "ast_vx (asteroid_tick dt a) =
     (if ast_x a + ast_vx a * dt < ast_radius a
         \<or> ast_x a + ast_vx a * dt > real_of_int SCREEN_W - ast_radius a
      then - ast_vx a else ast_vx a)"
  "ast_vy (asteroid_tick dt a) =
     (if ast_y a + ast_vy a * dt < ast_radius a
         \<or> ast_y a + ast_vy a * dt > real_of_int SCREEN_H - ast_radius a
      then - ast_vy a else ast_vy a)"
  by (simp_all add: asteroid_tick_def Let_def)

lemma Car_clamp_in_bounds:
  "30 \<le> car_x (Car_clamp c) \<and> car_x (Car_clamp c) \<le> real_of_int SCREEN_W - 30 \<and>
   30 \<le> car_y (Car_clamp c) \<and> car_y (Car_clamp c) \<le> real_of_int SCREEN_H - 30"
  by (simp add: Car_clamp_x Car_clamp_y SCREEN_W_def SCREEN_H_def)

lemma Car_clamp_reflects:
  "(car_x c < 30 \<and> car_vx c < 0 \<longrightarrow> car_vx (Car_clamp c) = - car_vx c * 0.6) \<and>
   (car_x c > real_of_int SCREEN_W - 30 \<and> car_vx c > 0 \<longrightarrow>
      car_vx (Car_clamp c) = - car_vx c * 0.6) \<and>
   (car_y c < 30 \<and> car_vy c < 0 \<longrightarrow> car_vy (Car_clamp c) = - car_vy c * 0.6) \<and>
   (car_y c > real_of_int SCREEN_H - 30 \<and> car_vy c > 0 \<longrightarrow>
      car_vy (Car_clamp c) = - car_vy c * 0.6)"
  by (simp add: Car_clamp_vx Car_clamp_vy SCREEN_W_def SCREEN_H_def)

lemma Ball_clamp_in_bounds:
  "real_of_int BALL_RADIUS \<le> ball_x (Ball_clamp b) \<and>
   ball_x (Ball_clamp b) \<le> real_of_int (SCREEN_W - BALL_RADIUS) \<and>
   real_of_int BALL_RADIUS \<le> ball_y (Ball_clamp b) \<and>
   ball_y (Ball_clamp b) \<le> real_of_int (SCREEN_H - BALL_RADIUS)"
  by (simp add: Ball_clamp_x Ball_clamp_y SCREEN_W_def SCREEN_H_def BALL_RADIUS_def)

lemma Ball_clamp_reflects:
  "(ball_x b < real_of_int BALL_RADIUS \<and> ball_vx b < 0 \<longrightarrow>
      ball_vx (Ball_clamp b) = - ball_vx b * 0.9) \<and>
   (ball_x b > real_of_int (SCREEN_W - BALL_RADIUS) \<and> ball_vx b > 0 \<longrightarrow>
      ball_vx (Ball_clamp b) = - ball_vx b * 0.9) \<and>
   (ball_y b < real_of_int BALL_RADIUS \<and> ball_vy b < 0 \<longrightarrow>
      ball_vy (Ball_clamp b) = - ball_vy b * 0.9) \<and>
   (ball_y b > real_of_int (SCREEN_H - BALL_RADIUS) \<and> ball_vy b > 0 \<longrightarrow>
      ball_vy (Ball_clamp b) = - ball_vy b * 0.9)"
  by (simp add: Ball_clamp_vx Ball_clamp_vy SCREEN_W_def SCREEN_H_def BALL_RADIUS_def)

lemma Car_update_in_bounds:
  "30 \<le> car_x (fst (Car_update dt lm c)) \<and>
   car_x (fst (Car_update dt lm c)) \<le> real_of_int SCREEN_W - 30 \<and>
   30 \<le> car_y (fst (Car_update dt lm c)) \<and>
   car_y (fst (Car_update dt lm c)) \<le> real_of_int SCREEN_H - 30"
  unfolding Car_update_position by (rule Car_clamp_in_bounds)

text \<open>
  C4, for the bodies that are clamped. After the clamp of a car (pad 30) and of the ball
  (pad \<open>BALL_RADIUS\<close>) the position lies within \<open>pad \<dots> screen - pad\<close> on both axes,
  which for a car still holds when its update returns; a velocity component that pointed
  outward at the wall the body was clamped at is negated and scaled by 0.6 for a car and
  by 0.9 for the ball. Nothing is stated here about asteroids.
\<close>

theorem clamp_cars_and_ball:
  "(30 \<le> car_x (Car_clamp c) \<and> car_x (Car_clamp c) \<le> real_of_int SCREEN_W - 30 \<and>
    30 \<le> car_y (Car_clamp c) \<and> car_y (Car_clamp c) \<le> real_of_int SCREEN_H - 30) \<and>
   ((car_x c < 30 \<and> car_vx c < 0 \<longrightarrow> car_vx (Car_clamp c) = - car_vx c * 0.6) \<and>
    (car_x c > real_of_int SCREEN_W - 30 \<and> car_vx c > 0 \<longrightarrow>
       car_vx (Car_clamp c) = - car_vx c * 0.6) \<and>
    (car_y c < 30 \<and> car_vy c < 0 \<longrightarrow> car_vy (Car_clamp c) = - car_vy c * 0.6) \<and>
    (car_y c > real_of_int SCREEN_H - 30 \<and> car_vy c > 0 \<longrightarrow>
       car_vy (Car_clamp c) = - car_vy c * 0.6)) \<and>
   (30 \<le> car_x (fst (Car_update dt lm c)) \<and>
    car_x (fst (Car_update dt lm c)) \<le> real_of_int SCREEN_W - 30 \<and>
    30 \<le> car_y (fst (Car_update dt lm c)) \<and>
    car_y (fst (Car_update dt lm c)) \<le> real_of_int SCREEN_H - 30) \<and>
   (real_of_int BALL_RADIUS \<le> ball_x (Ball_clamp b) \<and>
    ball_x (Ball_clamp b) \<le> real_of_int (SCREEN_W - BALL_RADIUS) \<and>
    real_of_int BALL_RADIUS \<le> ball_y (Ball_clamp b) \<and>
    ball_y (Ball_clamp b) \<le> real_of_int (SCREEN_H - BALL_RADIUS)) \<and>
   ((ball_x b < real_of_int BALL_RADIUS \<and> ball_vx b < 0 \<longrightarrow>
       ball_vx (Ball_clamp b) = - ball_vx b * 0.9) \<and>
    (ball_x b > real_of_int (SCREEN_W - BALL_RADIUS) \<and> ball_vx b > 0 \<longrightarrow>
       ball_vx (Ball_clamp b) = - ball_vx b * 0.9) \<and>
    (ball_y b < real_of_int BALL_RADIUS \<and> ball_vy b < 0 \<longrightarrow>
       ball_vy (Ball_clamp b) = - ball_vy b * 0.9) \<and>
    (ball_y b > real_of_int (SCREEN_H - BALL_RADIUS) \<and> ball_vy b > 0 \<longrightarrow>
       ball_vy (Ball_clamp b) = - ball_vy b * 0.9))"
  using Car_clamp_in_bounds[of c] Car_clamp_reflects[of c] Car_update_in_bounds[of dt lm c]
    Ball_clamp_in_bounds[of b] Ball_clamp_reflects[of b]
  by blast

theorem clamp_cars_and_ball_witness:
  "car_x (Car_clamp (car_moving 20 700 (- 100) 50)) = 30 \<and>
   car_vx (Car_clamp (car_moving 20 700 (- 100) 50)) = 60 \<and>
   car_y (Car_clamp (car_moving 20 700 (- 100) 50)) = 690 \<and>
   car_vy (Car_clamp (car_moving 20 700 (- 100) 50)) = - 30 \<and>
   ball_vx (Ball_clamp ((ball_at 1270 10)\<lparr>ball_vx := 200, ball_vy := - 10\<rparr>)) = - 180 \<and>
   ball_vy (Ball_clamp ((ball_at 1270 10)\<lparr>ball_vx := 200, ball_vy := - 10\<rparr>)) = 9"
  using clamp_cars_and_ball[where c = "car_moving 20 700 (- 100) 50"
      and b = "(ball_at 1270 10)\<lparr>ball_vx := 200, ball_vy := - 10\<rparr>"]
  by (simp add: car_moving_def Car_new_def ball_at_def Ball_reset_def config_defs Let_def
      Car_clamp_x Car_clamp_y)

text \<open>
  The claim as stated fails for asteroids. The asteroid loop of \<open>LevelMap.update\<close> never
  assigns the position, and it flips the sign of the velocity whenever the position is
  out of range, whichever way the velocity points. An asteroid of radius 14 at \<open>x = 15\<close>
  moving left at 60 is at \<open>x = 12\<close> after a tick of 0.05 s, inside the margin of its
  radius, now moving right; after a further tick of 0.03 s it is at \<open>x = 13.8\<close>, still
  inside the margin, and the flip has turned it outward again.
\<close>

theorem asteroid_not_clamped_counterexample:
  "ast_x (asteroid_tick 0.05 edge_asteroid) = 12 \<and>
   ast_radius (asteroid_tick 0.05 edge_asteroid) = 14 \<and>
   ast_x (asteroid_tick 0.05 edge_asteroid) < ast_radius (asteroid_tick 0.05 edge_asteroid) \<and>
   ast_vx (asteroid_tick 0.05 edge_asteroid) = 60 \<and>
   ast_x (asteroid_tick 0.03 (asteroid_tick 0.05 edge_asteroid)) = 13.8 \<and>
   ast_vx (asteroid_tick 0.03 (asteroid_tick 0.05 edge_asteroid)) = - 60"
  by (simp add: asteroid_tick_def edge_asteroid_def Let_def SCREEN_W_def SCREEN_H_def)

subsection \<open>Facts about the steps of the match\<close>

lemma fresh_match_fields:
  "g_combo (fresh_match lm bd lid best st sel t) = 1"
  "car_boost (g_player (fresh_match lm bd lid best st sel t)) = 100"
  "car_boost (g_ai_car (fresh_match lm bd lid best st sel t)) = 100"
  by (simp_all add: fresh_match_def Let_def Car_new_def BOOST_MAX_def)

lemma start_level_fresh:
  assumes "start_level R bd lid g0 = Inr g'"
  shows "fresh_or_kept g g'"
  using assms
  by (auto simp add: start_level_def init_game_def fresh_match_fields fresh_or_kept_def
      split: sum.splits)

lemma fresh_or_kept_refl: "fresh_or_kept g g"
  by (simp add: fresh_or_kept_def)

lemma fresh_or_kept_sel: "fresh_or_kept g (g\<lparr>g_sel_level := s\<rparr>)"
  by (simp add: fresh_or_kept_def)

lemma fresh_or_kept_state: "fresh_or_kept g (g\<lparr>g_state := s\<rparr>)"
  by (simp add: fresh_or_kept_def)

lemma fresh_or_kept_reset: "fresh_or_kept g (reset_positions bd (g\<lparr>g_state := s\<rparr>))"
  by (simp add: fresh_or_kept_def reset_positions_def)

lemmas fresh_or_kept_intros =
  start_level_fresh fresh_or_kept_refl fresh_or_kept_sel fresh_or_kept_state fresh_or_kept_reset

lemma keydown_select_fields:
  "keydown_select R bd k g = Inr g' \<Longrightarrow> fresh_or_kept g g'"
  unfolding keydown_select_def
  by (auto split: if_splits intro: fresh_or_kept_intros)

lemma keydown_playing_fields:
  "keydown_playing R bd k g = Inr g' \<Longrightarrow> fresh_or_kept g g'"
  unfolding keydown_playing_def Let_def
  by (auto split: if_splits intro: fresh_or_kept_intros)

lemma keydown_goal_flash_fields:
  "keydown_goal_flash bd k g = Inr g' \<Longrightarrow> fresh_or_kept g g'"
  unfolding keydown_goal_flash_def
  by (auto split: if_splits intro: fresh_or_kept_intros)

lemma keydown_gameover_fields:
  "keydown_gameover R bd k g = Inr g' \<Longrightarrow> fresh_or_kept g g'"
  unfolding keydown_gameover_def Let_def
  by (auto split: if_splits intro: fresh_or_kept_intros)

lemma handle_event_fields:
  assumes "handle_event R bd ev g = Inr g'"
  shows "fresh_or_kept g g'"
proof (cases ev)
  case QUIT
  with assms show ?thesis by (simp add: handle_event_def)
next
  case OTHER_EVENT
  with assms show ?thesis by (simp add: handle_event_def fresh_or_kept_refl)
next
  case (KEYDOWN k)
  have "keydown_select R bd k g = Inr g' \<or> keydown_playing R bd k g = Inr g' \<or>
        keydown_goal_flash bd k g = Inr g' \<or> keydown_gameover R bd k g = Inr g' \<or> g' = g"
    using assms unfolding handle_event_def KEYDOWN event.case
    by (metis Inr_inject)
  then show ?thesis
    using keydown_select_fields keydown_playing_fields keydown_goal_flash_fields
      keydown_gameover_fields fresh_or_kept_refl by blast
qed

lemma update_player_fields:
  "g_combo (update_player dt env g) = g_combo g"
  "g_ai_car (update_player dt env g) = g_ai_car g"
  "\<exists>l r f b k. g_player (update_player dt env g) =
      fst (Car_update dt (g_level_map g) (Car_apply_input l r f b k dt (g_player g)))"
  by (simp_all add: update_player_def Let_def) blast

lemma update_ai_fields:
  "g_combo (update_ai dt env g) = g_combo g"
  "g_player (update_ai dt env g) = g_player g"
  "\<exists>l r f b k. g_ai_car (update_ai dt env g) =
      fst (Car_update dt (g_level_map g) (Car_apply_input l r f b k dt (g_ai_car g)))"
  by (simp_all add: update_ai_def Let_def) blast

lemma car_hit_boost: "car_boost (snd (snd (car_hit car b))) = car_boost car"
  by (simp add: car_hit_def Let_def)

lemma update_ball_fields:
  "g_combo (update_ball dt g) = g_combo g"
  "car_boost (g_player (update_ball dt g)) = car_boost (g_player g)"
  "car_boost (g_ai_car (update_ball dt g)) = car_boost (g_ai_car g)"
  by (simp_all add: update_ball_def Let_def car_hit_boost)

lemma update_hazard_fields:
  "g_combo (update_hazard env g) = g_combo g"
  "car_boost (g_player (update_hazard env g)) = car_boost (g_player g)"
  "g_ai_car (update_hazard env g) = g_ai_car g"
  by (simp_all add: update_hazard_def)

lemma update_goals_fields:
  "g_combo (update_goals g) =
     (if check_goal (g_goal_l g) (g_ball g) then 1
      else if check_goal (g_goal_r g) (g_ball g) then min (g_combo g + 1) 8
      else g_combo g)"
  "car_boost (g_player (update_goals g)) = car_boost (g_player g)"
  "car_boost (g_ai_car (update_goals g)) = car_boost (g_ai_car g)"
  by (simp_all add: update_goals_def)

lemma update_timer_fields:
  assumes "update_timer dt g = Inr g'"
  shows "g_combo g' = g_combo g" "g_player g' = g_player g" "g_ai_car g' = g_ai_car g"
  using assms
  by (auto simp add: update_timer_def Let_def split: if_splits option.splits)

lemma frame_dt_range: "0 \<le> frame_dt ms" "frame_dt ms \<le> 0.05"
  by (simp_all add: frame_dt_def)

lemma car_tick_range:
  assumes "0 \<le> dt" "dt \<le> 0.05" "0 \<le> car_boost c" "car_boost c \<le> 100"
  shows "0 \<le> car_boost (fst (Car_update dt lm (Car_apply_input l r f b k dt c)))"
    and "car_boost (fst (Car_update dt lm (Car_apply_input l r f b k dt c))) \<le> 100"
proof -
  let ?c1 = "Car_apply_input l r f b k dt c"
  have r: "0 \<le> car_boost ?c1" "car_boost ?c1 \<le> 100"
    using Car_apply_input_range[OF assms] by simp_all
  show "0 \<le> car_boost (fst (Car_update dt lm ?c1))"
    using Car_update_range(1)[OF r, of dt lm] r(1) by simp
  show "car_boost (fst (Car_update dt lm ?c1)) \<le> 100"
    using Car_update_range(2)[OF r] by simp
qed

lemma Game_update_not_playing:
  "g_state g \<noteq> ''playing'' \<Longrightarrow> Game_update dt env g = Inr (g\<lparr>g_t := g_t g + dt\<rparr>)"
  by (simp add: Game_update_def Let_def)

lemma Game_update_playing:
  assumes "g_state g = ''playing''" "Game_update dt env g = Inr g'"
  shows "\<exists>g1. update_timer dt
                (update_goals
                  (update_hazard env
                    (update_ball dt (update_ai dt env (update_player dt env (g\<lparr>g_t := g_t g + dt\<rparr>))))))
              = Inr g1 \<and>
              g' = g1\<lparr>g_level_map := LevelMap_update (te_lightning env) dt (g_level_map g1)\<rparr>"
  using assms by (auto simp add: Game_update_def Let_def split: sum.splits)

lemma Game_update_combo:
  assumes "g_state g = ''playing''" "Game_update dt env g = Inr g'"
  shows "g_combo g' =
           g_combo (update_goals
                      (update_hazard env
                        (update_ball dt
                          (update_ai dt env (update_player dt env (g\<lparr>g_t := g_t g + dt\<rparr>))))))"
proof -
  obtain g1 where g1: "update_timer dt
                (update_goals
                  (update_hazard env
                    (update_ball dt (update_ai dt env (update_player dt env (g\<lparr>g_t := g_t g + dt\<rparr>))))))
              = Inr g1"
    "g' = g1\<lparr>g_level_map := LevelMap_update (te_lightning env) dt (g_level_map g1)\<rparr>"
    using Game_update_playing[OF assms] by blast
  show ?thesis using update_timer_fields(1)[OF g1(1)] g1(2) by simp
qed

lemma physics_combo:
  "g_combo (update_hazard env (update_ball dt (update_ai dt env (update_player dt env (g\<lparr>g_t := t\<rparr>)))))
     = g_combo g"
  by (simp add: update_hazard_fields update_ball_fields update_ai_fields update_player_fields)

lemma Game_update_combo_range:
  assumes "Game_update dt env g = Inr g'" "1 \<le> g_combo g" "g_combo g \<le> 8"
  shows "1 \<le> g_combo g' \<and> g_combo g' \<le> 8"
proof (cases "g_state g = ''playing''")
  case True
  show ?thesis
    unfolding Game_update_combo[OF True assms(1)] update_goals_fields physics_combo
    using assms(2,3) by auto
next
  case False
  then show ?thesis using assms Game_update_not_playing[OF False, of dt env] by auto
qed

lemma Game_update_boost_range:
  assumes "Game_update dt env g = Inr g'" "0 \<le> dt" "dt \<le> 0.05"
    and "0 \<le> car_boost (g_player g)" "car_boost (g_player g) \<le> 100"
    and "0 \<le> car_boost (g_ai_car g)" "car_boost (g_ai_car g) \<le> 100"
  shows "0 \<le> car_boost (g_player g') \<and> car_boost (g_player g') \<le> 100 \<and>
         0 \<le> car_boost (g_ai_car g') \<and> car_boost (g_ai_car g') \<le> 100"
proof (cases "g_state g = ''playing''")
  case False
  then show ?thesis using assms Game_update_not_playing[OF False, of dt env] by auto
next
  case True
  let ?g0 = "g\<lparr>g_t := g_t g + dt\<rparr>"
  let ?gp = "update_player dt env ?g0"
  let ?ga = "update_ai dt env ?gp"
  obtain g1 where g1: "update_timer dt (update_goals (update_hazard env (update_ball dt ?ga))) = Inr g1"
    "g' = g1\<lparr>g_level_map := LevelMap_update (te_lightning env) dt (g_level_map g1)\<rparr>"
    using Game_update_playing[OF True assms(1)] by blast
  have p': "car_boost (g_player g') = car_boost (g_player ?gp)"
    using update_timer_fields(2)[OF g1(1)] g1(2)
    by (simp add: update_goals_fields update_hazard_fields update_ball_fields update_ai_fields)
  have a': "car_boost (g_ai_car g') = car_boost (g_ai_car ?ga)"
    using update_timer_fields(3)[OF g1(1)] g1(2)
    by (simp add: update_goals_fields update_hazard_fields update_ball_fields)
  obtain l r f b k where p: "g_player ?gp =
      fst (Car_update dt (g_level_map ?g0) (Car_apply_input l r f b k dt (g_player ?g0)))"
    using update_player_fields(3)[of dt env ?g0] by blast
  obtain l' r' f' b' k' where a: "g_ai_car ?ga =
      fst (Car_update dt (g_level_map ?gp) (Car_apply_input l' r' f' b' k' dt (g_ai_car ?gp)))"
    using update_ai_fields(3)[of dt env ?gp] by blast
  have ai_same: "g_ai_car ?gp = g_ai_car g" by (simp add: update_player_fields)
  have "0 \<le> car_boost (g_player ?gp) \<and> car_boost (g_player ?gp) \<le> 100"
    unfolding p using car_tick_range[OF assms(2,3), of "g_player ?g0"] assms(4,5) by simp
  moreover have "0 \<le> car_boost (g_ai_car ?ga) \<and> car_boost (g_ai_car ?ga) \<le> 100"
    unfolding a ai_same using car_tick_range[OF assms(2,3) assms(6,7)] by simp
  ultimately show ?thesis unfolding p' a' by simp
qed

lemma handle_events_fields:
  "handle_events R events g = Inr g' \<Longrightarrow>
     1 \<le> g_combo g \<and> g_combo g \<le> 8 \<and>
     0 \<le> car_boost (g_player g) \<and> car_boost (g_player g) \<le> 100 \<and>
     0 \<le> car_boost (g_ai_car g) \<and> car_boost (g_ai_car g) \<le> 100 \<Longrightarrow>
     1 \<le> g_combo g' \<and> g_combo g' \<le> 8 \<and>
     0 \<le> car_boost (g_player g') \<and> car_boost (g_player g') \<le> 100 \<and>
     0 \<le> car_boost (g_ai_car g') \<and> car_boost (g_ai_car g') \<le> 100"
proof (induction events arbitrary: g)
  case Nil
  then show ?case by simp
next
  case (Cons e es)
  from Cons.prems(1) obtain g1 where g1: "handle_event R (snd e) (fst e) g = Inr g1"
    "handle_events R es g1 = Inr g'"
    by (auto split: sum.splits)
  have "fresh_or_kept g g1" by (rule handle_event_fields[OF g1(1)])
  with Cons.prems(2) have "1 \<le> g_combo g1 \<and> g_combo g1 \<le> 8 \<and>
     0 \<le> car_boost (g_player g1) \<and> car_boost (g_player g1) \<le> 100 \<and>
     0 \<le> car_boost (g_ai_car g1) \<and> car_boost (g_ai_car g1) \<le> 100"
    by (auto simp: fresh_or_kept_def)
  then show ?case by (rule Cons.IH[OF g1(2)])
qed

lemma Game_new_fields:
  assumes "Game_new R bd = Inr g"
  shows "g_combo g = 1" "car_boost (g_player g) = 100" "car_boost (g_ai_car g) = 100"
  using assms by (auto simp add: Game_new_def fresh_match_fields split: sum.splits)

lemma reachable_ranges:
  "reachable R g \<Longrightarrow>
     1 \<le> g_combo g \<and> g_combo g \<le> 8 \<and>
     0 \<le> car_boost (g_player g) \<and> car_boost (g_player g) \<le> 100 \<and>
     0 \<le> car_boost (g_ai_car g) \<and> car_boost (g_ai_car g) \<le> 100"
proof (induction rule: reachable.induct)
  case (start bd g)
  then show ?case by (simp add: Game_new_fields)
next
  case (frame g ms events env g')
  from frame.hyps(2) obtain g1 where g1: "handle_events R events g = Inr g1"
    "Game_update (frame_dt ms) env g1 = Inr g'"
    by (auto simp: Game_frame_def split: sum.splits)
  have r1: "1 \<le> g_combo g1 \<and> g_combo g1 \<le> 8 \<and>
     0 \<le> car_boost (g_player g1) \<and> car_boost (g_player g1) \<le> 100 \<and>
     0 \<le> car_boost (g_ai_car g1) \<and> car_boost (g_ai_car g1) \<le> 100"
    by (rule handle_events_fields[OF g1(1) frame.IH])
  have "1 \<le> g_combo g' \<and> g_combo g' \<le> 8"
    using Game_update_combo_range[OF g1(2)] r1 by simp
  moreover have "0 \<le> car_boost (g_player g') \<and> car_boost (g_player g') \<le> 100 \<and>
         0 \<le> car_boost (g_ai_car g') \<and> car_boost (g_ai_car g') \<le> 100"
    using Game_update_boost_range[OF g1(2) frame_dt_range] r1 by simp
  ultimately show ?case by simp
qed

lemma first_game_reachable: "reachable const_rng first_game"
proof -
  have "level_lookup 0 = Inr (LEVELS ! 0)"
    by (simp add: level_lookup_def LEVELS_def)
  then have "Game_new const_rng (1 / 2, 1 / 2) = Inr first_game"
    by (simp add: Game_new_def LevelMap_new_def first_game_def const_rng_def)
  then show ?thesis by (rule reachable.start)
qed

lemma first_game_goals:
  "gz_rect (g_goal_l first_game) = \<lparr>rect_x = 0, rect_y = 285, rect_w = 22, rect_h = 150\<rparr>"
  "gz_rect (g_goal_r first_game) = \<lparr>rect_x = 1258, rect_y = 285, rect_w = 22, rect_h = 150\<rparr>"
  by (simp_all add: first_game_def fresh_match_def Let_def GoalZone_new_def config_defs)

subsection \<open>The combo counter\<close>

text \<open>
  C6. In every state a run of the game reaches, the combo counter lies between 1 and 8.
  The goal check of a tick sets it to exactly 1 when the AI scores (the ball is in the
  left goal zone), to \<open>min(combo + 1, 8)\<close> when the player scores (the ball is in the
  right one and not in the left one), which is one more below the cap and 8 at the cap,
  however long the streak, and leaves it alone otherwise. Nothing else in
  \<open>Game.update\<close> changes it: the counter after a tick in state \<open>playing\<close> is the one
  the goal check leaves, and the goal check starts from the counter the tick began with.
\<close>

theorem combo_counter:
  "(reachable R g \<longrightarrow> 1 \<le> g_combo g \<and> g_combo g \<le> 8) \<and>
   (check_goal (g_goal_l h) (g_ball h) \<longrightarrow> g_combo (update_goals h) = 1) \<and>
   (\<not> check_goal (g_goal_l h) (g_ball h) \<and> check_goal (g_goal_r h) (g_ball h) \<longrightarrow>
      g_combo (update_goals h) = min (g_combo h + 1) 8 \<and>
      (g_combo h < 8 \<longrightarrow> g_combo (update_goals h) = g_combo h + 1)) \<and>
   (\<not> check_goal (g_goal_l h) (g_ball h) \<and> \<not> check_goal (g_goal_r h) (g_ball h) \<longrightarrow>
      g_combo (update_goals h) = g_combo h) \<and>
   (g_state h = ''playing'' \<and> Game_update dt env h = Inr h' \<longrightarrow>
      g_combo h' =
        g_combo (update_goals
                   (update_hazard env
                     (update_ball dt
                       (update_ai dt env (update_player dt env (h\<lparr>g_t := g_t h + dt\<rparr>)))))) \<and>
      g_combo (update_hazard env
                (update_ball dt
                  (update_ai dt env (update_player dt env (h\<lparr>g_t := g_t h + dt\<rparr>)))))
        = g_combo h)"
  using reachable_ranges[of R g] Game_update_combo[of h dt env h'] physics_combo[where env = env and dt = dt and g = h and t = "g_t h + dt"]
  by (simp add: update_goals_fields)

theorem combo_counter_witness:
  "reachable const_rng first_game \<and> 1 \<le> g_combo first_game \<and> g_combo first_game \<le> 8 \<and>
   g_combo (update_goals (first_game\<lparr>g_ball := ball_at 10 300, g_combo := 5\<rparr>)) = 1 \<and>
   g_combo (update_goals (first_game\<lparr>g_ball := ball_at 1270 300, g_combo := 3\<rparr>)) = 4 \<and>
   g_combo (update_goals (first_game\<lparr>g_ball := ball_at 1270 300, g_combo := 8\<rparr>)) = 8 \<and>
   g_combo (update_goals (first_game\<lparr>g_ball := ball_at 640 360, g_combo := 5\<rparr>)) = 5"
proof -
  have in_l: "check_goal (g_goal_l first_game) (ball_at 10 300)"
    and in_r: "check_goal (g_goal_r first_game) (ball_at 1270 300)"
    and not_l: "\<not> check_goal (g_goal_l first_game) (ball_at 1270 300)"
    and out: "\<not> check_goal (g_goal_l first_game) (ball_at 640 360)"
      "\<not> check_goal (g_goal_r first_game) (ball_at 640 360)"
    by (simp_all add: check_goal_def first_game_goals collidepoint_def ball_at_def py_int_def)
  have range: "1 \<le> g_combo first_game \<and> g_combo first_game \<le> 8"
    using combo_counter[where R = const_rng and g = first_game, THEN conjunct1]
      first_game_reachable by simp
  have ai: "g_combo (update_goals (first_game\<lparr>g_ball := ball_at 10 300, g_combo := 5\<rparr>)) = 1"
    using combo_counter[where h = "first_game\<lparr>g_ball := ball_at 10 300, g_combo := 5\<rparr>",
        THEN conjunct2, THEN conjunct1] in_l by simp
  have p3: "g_combo (update_goals (first_game\<lparr>g_ball := ball_at 1270 300, g_combo := 3\<rparr>)) = 4"
    using combo_counter[where h = "first_game\<lparr>g_ball := ball_at 1270 300, g_combo := 3\<rparr>",
        THEN conjunct2, THEN conjunct2, THEN conjunct1] in_r not_l by simp
  have p8: "g_combo (update_goals (first_game\<lparr>g_ball := ball_at 1270 300, g_combo := 8\<rparr>)) = 8"
    using combo_counter[where h = "first_game\<lparr>g_ball := ball_at 1270 300, g_combo := 8\<rparr>",
        THEN conjunct2, THEN conjunct2, THEN conjunct1] in_r not_l by simp
  have none: "g_combo (update_goals (first_game\<lparr>g_ball := ball_at 640 360, g_combo := 5\<rparr>)) = 5"
    using combo_counter[where h = "first_game\<lparr>g_ball := ball_at 640 360, g_combo := 5\<rparr>",
        THEN conjunct2, THEN conjunct2, THEN conjunct2, THEN conjunct1] out by simp
  show ?thesis using first_game_reachable range ai p3 p8 none by simp
qed

subsection \<open>The boost meter\<close>

text \<open>
  C3. For a tick with \<open>0 \<le> dt \<le> 0.05\<close> and a car whose meter is within \<open>0 \<dots> 100\<close>,
  whatever its other fields: the meter is within \<open>0 \<dots> 100\<close> after \<open>apply_input\<close> and
  after \<open>update\<close>; \<open>apply_input\<close> sets the boosting flag exactly when boost is held,
  the meter is above 5 and forward is held; the meter goes down in \<open>apply_input\<close> only
  when the flag is set, and never goes down in \<open>update\<close>. In every state a run of the
  game reaches, the meters of both cars are within \<open>0 \<dots> 100\<close>.
\<close>

theorem boost_meter:
  assumes "0 \<le> dt" "dt \<le> 0.05" "0 \<le> car_boost c" "car_boost c \<le> 100"
  shows "(0 \<le> car_boost (Car_apply_input l r f b k dt c) \<and>
          car_boost (Car_apply_input l r f b k dt c) \<le> 100) \<and>
         (0 \<le> car_boost (fst (Car_update dt lm c)) \<and>
          car_boost (fst (Car_update dt lm c)) \<le> 100) \<and>
         (car_boosting (Car_apply_input l r f b k dt c) \<longleftrightarrow> k \<and> car_boost c > 5 \<and> f) \<and>
         (car_boost (Car_apply_input l r f b k dt c) < car_boost c \<longrightarrow>
            car_boosting (Car_apply_input l r f b k dt c)) \<and>
         car_boost c \<le> car_boost (fst (Car_update dt lm c)) \<and>
         (reachable R g \<longrightarrow>
            0 \<le> car_boost (g_player g) \<and> car_boost (g_player g) \<le> 100 \<and>
            0 \<le> car_boost (g_ai_car g) \<and> car_boost (g_ai_car g) \<le> 100)"
proof -
  have drain: "car_boost (Car_apply_input l r f b k dt c) < car_boost c \<longrightarrow>
            car_boosting (Car_apply_input l r f b k dt c)"
    using assms by (auto simp add: Car_apply_input_boost Car_apply_input_boosting config_defs)
  have upd: "car_boost c \<le> car_boost (fst (Car_update dt lm c))"
    "car_boost (fst (Car_update dt lm c)) \<le> 100"
    using Car_update_range[OF assms(3,4)] by simp_all
  show ?thesis
    using Car_apply_input_range[OF assms, of l r f b k] upd drain assms(3)
      reachable_ranges[of R g]
    by (auto simp add: Car_apply_input_boosting)
qed

theorem boost_meter_witness:
  "0 \<le> car_boost (Car_apply_input False False True False True 0.016 (Car_new 180 360 True None)) \<and>
   car_boost (Car_apply_input False False True False True 0.016 (Car_new 180 360 True None)) \<le> 100 \<and>
   car_boosting (Car_apply_input False False True False True 0.016 (Car_new 180 360 True None)) \<and>
   car_boost (Car_new 180 360 True None)
     \<le> car_boost (fst (Car_update 0.016 pad_level (Car_new 180 360 True None))) \<and>
   car_boost (g_player first_game) \<le> 100"
proof -
  have c: "0 \<le> car_boost (Car_new 180 360 True None)" "car_boost (Car_new 180 360 True None) \<le> 100"
    by (simp_all add: Car_new_def BOOST_MAX_def Let_def)
  have dt: "(0::real) \<le> 0.016" "(0.016::real) \<le> 0.05" by simp_all
  show ?thesis
    using boost_meter[OF dt c, where l = False and r = False and f = True and b = False
        and k = True and lm = pad_level and R = const_rng and g = first_game]
      first_game_reachable
    by (simp add: Car_new_def BOOST_MAX_def Let_def)
qed

subsection \<open>Seeded layout and its evolution\<close>

lemma LevelMap_update_seeded:
  assumes "without_lightning lm = without_lightning lm'"
  shows "without_lightning (LevelMap_update u dt lm) = without_lightning (LevelMap_update u' dt lm')"
proof -
  from assms have
    "lm_level_id lm = lm_level_id lm'" "lm_cfg lm = lm_cfg lm'"
    "lm_anomalies lm = lm_anomalies lm'" "lm_boost_pads lm = lm_boost_pads lm'"
    "lm_asteroids lm = lm_asteroids lm'" "lm_pulse_rings lm = lm_pulse_rings lm'"
    "lm_crystal_shards lm = lm_crystal_shards lm'"
    "lm_gravity_corridors lm = lm_gravity_corridors lm'"
    by (cases lm; cases lm'; simp add: without_lightning_def)+
  then show ?thesis
    by (simp add: without_lightning_def LevelMap_update_def)
qed

lemma run_updates_seeded:
  assumes "map fst ticks = map fst ticks'"
    and "without_lightning lm = without_lightning lm'"
  shows "without_lightning (run_updates ticks lm) = without_lightning (run_updates ticks' lm')"
  using assms
proof (induction ticks arbitrary: ticks' lm lm')
  case Nil
  then show ?case by simp
next
  case (Cons t ts)
  then obtain t' ts' where t': "ticks' = t' # ts'" "fst t = fst t'" "map fst ts = map fst ts'"
    by (cases ticks') auto
  have "without_lightning (LevelMap_update (snd t) (fst t) lm)
          = without_lightning (LevelMap_update (snd t') (fst t) lm')"
    by (rule LevelMap_update_seeded[OF Cons.prems(2)])
  then show ?case
    using Cons.IH[OF t'(3)] t'(1,2) by simp
qed

lemma LevelMap_new_levels:
  assumes "0 \<le> level_id" "level_id < 5"
  shows "LevelMap_new R level_id =
           Inr (generate R level_id (LEVELS ! nat level_id)
                  (rng_terrain R level_id (rng_Random R (level_id * 137 + 42))))"
  using assms by (simp add: LevelMap_new_def level_lookup_def LEVELS_def)

text \<open>
  Generators that agree on every draw give the same layout. Each stage of
  \<^verbatim>\<open>_generate\<close> returns the same objects from both and leaves related states.
\<close>

lemma draws_agreeD:
  "draws_agree rel f1 f2 \<Longrightarrow> rel g1 g2 \<Longrightarrow> fst (f1 g1) = fst (f2 g2)"
  "draws_agree rel f1 f2 \<Longrightarrow> rel g1 g2 \<Longrightarrow> rel (snd (f1 g1)) (snd (f2 g2))"
  by (simp_all add: draws_agree_def)

lemma same_methods_randint:
  assumes "same_methods rel R1 R2" "rel g1 g2"
  shows "fst (rng_randint R1 g1 a b) = fst (rng_randint R2 g2 a b)"
    and "rel (snd (rng_randint R1 g1 a b)) (snd (rng_randint R2 g2 a b))"
  using assms by (simp_all add: same_methods_def draws_agree_def)

lemma same_methods_uniform:
  assumes "same_methods rel R1 R2" "rel g1 g2"
  shows "fst (rng_uniform R1 g1 a b) = fst (rng_uniform R2 g2 a b)"
    and "rel (snd (rng_uniform R1 g1 a b)) (snd (rng_uniform R2 g2 a b))"
  using assms by (simp_all add: same_methods_def draws_agree_def)

lemma same_methods_choice:
  assumes "same_methods rel R1 R2" "rel g1 g2"
  shows "fst (rng_choice R1 g1 xs) = fst (rng_choice R2 g2 xs)"
    and "rel (snd (rng_choice R1 g1 xs)) (snd (rng_choice R2 g2 xs))"
  using assms by (simp_all add: same_methods_def draws_agree_def)

lemma same_methods_terrain:
  assumes "same_methods rel R1 R2" "rel g1 g2"
  shows "rel (rng_terrain R1 level_id g1) (rng_terrain R2 level_id g2)"
  using assms by (simp add: same_methods_def)

lemmas same_methods_draws =
  same_methods_randint same_methods_uniform same_methods_choice

lemma rng_repeat_agree:
  assumes "draws_agree rel f1 f2"
  shows "draws_agree rel (rng_repeat n f1) (rng_repeat n f2)"
proof (induction n)
  case 0
  show ?case by (simp add: draws_agree_def)
next
  case (Suc n)
  show ?case
    unfolding draws_agree_def
  proof (intro allI impI)
    fix g1 g2 assume r: "rel g1 g2"
    have h: "fst (f1 g1) = fst (f2 g2)" "rel (snd (f1 g1)) (snd (f2 g2))"
      using draws_agreeD[OF assms r] by simp_all
    have t: "fst (rng_repeat n f1 (snd (f1 g1))) = fst (rng_repeat n f2 (snd (f2 g2)))"
      "rel (snd (rng_repeat n f1 (snd (f1 g1)))) (snd (rng_repeat n f2 (snd (f2 g2))))"
      using draws_agreeD[OF Suc.IH h(2)] by simp_all
    show "fst (rng_repeat (Suc n) f1 g1) = fst (rng_repeat (Suc n) f2 g2) \<and>
          rel (snd (rng_repeat (Suc n) f1 g1)) (snd (rng_repeat (Suc n) f2 g2))"
      using h t by (simp add: Let_def)
  qed
qed

lemma gen_pad_pos_agree:
  assumes "same_methods rel R1 R2"
  shows "draws_agree rel (gen_pad_pos R1) (gen_pad_pos R2)"
  unfolding draws_agree_def gen_pad_pos_def Let_def
  by (auto intro!: same_methods_draws[OF assms])

lemma gen_shard_agree:
  assumes "same_methods rel R1 R2"
  shows "draws_agree rel (gen_shard R1) (gen_shard R2)"
  unfolding draws_agree_def gen_shard_def Let_def
  by (auto intro!: same_methods_draws[OF assms])

lemma gen_corridor_agree:
  assumes "same_methods rel R1 R2"
  shows "draws_agree rel (gen_corridor R1) (gen_corridor R2)"
  unfolding draws_agree_def gen_corridor_def Let_def
  by (auto intro!: same_methods_draws[OF assms])

lemma gen_ring_agree:
  assumes "same_methods rel R1 R2"
  shows "draws_agree rel (gen_ring R1 accent) (gen_ring R2 accent)"
  unfolding draws_agree_def gen_ring_def Let_def
  by (auto intro!: same_methods_draws[OF assms])

lemma gen_lightning_agree:
  assumes "same_methods rel R1 R2"
  shows "draws_agree rel (gen_lightning R1) (gen_lightning R2)"
  unfolding draws_agree_def gen_lightning_def Let_def
  by (auto intro!: same_methods_draws[OF assms])

lemma gen_asteroid_agree:
  assumes "same_methods rel R1 R2"
  shows "draws_agree rel (gen_asteroid R1 lid) (gen_asteroid R2 lid)"
  unfolding draws_agree_def gen_asteroid_def Let_def
  by (auto intro!: same_methods_draws[OF assms])

lemma gen_boost_pads_agree:
  assumes "same_methods rel R1 R2"
  shows "draws_agree rel (gen_boost_pads R1) (gen_boost_pads R2)"
  unfolding draws_agree_def
proof (intro allI impI)
  fix g1 g2 assume r: "rel g1 g2"
  have n: "fst (rng_randint R1 g1 3 6) = fst (rng_randint R2 g2 3 6)"
    "rel (snd (rng_randint R1 g1 3 6)) (snd (rng_randint R2 g2 3 6))"
    using same_methods_randint[OF assms r] by simp_all
  have m: "fst (rng_repeat (nat (fst (rng_randint R2 g2 3 6))) (gen_pad_pos R1) (snd (rng_randint R1 g1 3 6)))
         = fst (rng_repeat (nat (fst (rng_randint R2 g2 3 6))) (gen_pad_pos R2) (snd (rng_randint R2 g2 3 6)))"
    "rel (snd (rng_repeat (nat (fst (rng_randint R2 g2 3 6))) (gen_pad_pos R1) (snd (rng_randint R1 g1 3 6))))
         (snd (rng_repeat (nat (fst (rng_randint R2 g2 3 6))) (gen_pad_pos R2) (snd (rng_randint R2 g2 3 6))))"
    using draws_agreeD[OF rng_repeat_agree[OF gen_pad_pos_agree[OF assms]] n(2)] by simp_all
  show "fst (gen_boost_pads R1 g1) = fst (gen_boost_pads R2 g2) \<and>
        rel (snd (gen_boost_pads R1 g1)) (snd (gen_boost_pads R2 g2))"
    using m by (simp add: gen_boost_pads_def Let_def n(1))
qed

lemma gen_anomaly_agree:
  assumes "same_methods rel R1 R2"
  shows "draws_agree rel (gen_anomaly R1 kinds) (gen_anomaly R2 kinds)"
  unfolding draws_agree_def
proof (intro allI impI)
  fix g1 g2 assume r: "rel g1 g2"
  have k: "fst (rng_choice R1 g1 kinds) = fst (rng_choice R2 g2 kinds)"
    using same_methods_choice[OF assms r] by simp
  show "fst (gen_anomaly R1 kinds g1) = fst (gen_anomaly R2 kinds g2) \<and>
        rel (snd (gen_anomaly R1 kinds g1)) (snd (gen_anomaly R2 kinds g2))"
    unfolding gen_anomaly_def Let_def k
    by (auto intro!: same_methods_draws[OF assms] r)
qed

lemma gen_hazard_agree:
  assumes "draws_agree rel f1 f2"
  shows "draws_agree rel (gen_hazard name hazards n f1) (gen_hazard name hazards n f2)"
  using rng_repeat_agree[OF assms, of n]
  by (simp add: draws_agree_def gen_hazard_def)

lemma generate_agree:
  assumes m: "same_methods rel R1 R2" and r: "rel g1 g2"
  shows "generate R1 level_id cfg g1 = generate R2 level_id cfg g2"
proof -
  define p1 where "p1 = gen_boost_pads R1 g1"
  define p2 where "p2 = gen_boost_pads R2 g2"
  have p: "fst p1 = fst p2" "rel (snd p1) (snd p2)"
    unfolding p1_def p2_def
    by (rule draws_agreeD[OF gen_boost_pads_agree[OF m] r])+
  define a1 where "a1 = rng_repeat (cfg_max_anomalies cfg)
                          (gen_anomaly R1 (cfg_anomaly_types cfg)) (snd p1)"
  define a2 where "a2 = rng_repeat (cfg_max_anomalies cfg)
                          (gen_anomaly R2 (cfg_anomaly_types cfg)) (snd p2)"
  have a: "fst a1 = fst a2" "rel (snd a1) (snd a2)"
    unfolding a1_def a2_def
    by (rule draws_agreeD[OF rng_repeat_agree[OF gen_anomaly_agree[OF m]] p(2)])+
  define b1 where "b1 = rng_repeat (cfg_max_asteroids cfg) (gen_asteroid R1 level_id) (snd a1)"
  define b2 where "b2 = rng_repeat (cfg_max_asteroids cfg) (gen_asteroid R2 level_id) (snd a2)"
  have b: "fst b1 = fst b2" "rel (snd b1) (snd b2)"
    unfolding b1_def b2_def
    by (rule draws_agreeD[OF rng_repeat_agree[OF gen_asteroid_agree[OF m]] a(2)])+
  define c1 where "c1 = gen_hazard ''crystal_shards'' (cfg_hazards cfg) 8 (gen_shard R1) (snd b1)"
  define c2 where "c2 = gen_hazard ''crystal_shards'' (cfg_hazards cfg) 8 (gen_shard R2) (snd b2)"
  have c: "fst c1 = fst c2" "rel (snd c1) (snd c2)"
    unfolding c1_def c2_def
    by (rule draws_agreeD[OF gen_hazard_agree[OF gen_shard_agree[OF m]] b(2)])+
  define d1 where "d1 = gen_hazard ''gravity_corridors'' (cfg_hazards cfg) 3 (gen_corridor R1) (snd c1)"
  define d2 where "d2 = gen_hazard ''gravity_corridors'' (cfg_hazards cfg) 3 (gen_corridor R2) (snd c2)"
  have d: "fst d1 = fst d2" "rel (snd d1) (snd d2)"
    unfolding d1_def d2_def
    by (rule draws_agreeD[OF gen_hazard_agree[OF gen_corridor_agree[OF m]] c(2)])+
  define e1 where "e1 = gen_hazard ''pulse_rings'' (cfg_hazards cfg) 3 (gen_ring R1 (cfg_accent cfg)) (snd d1)"
  define e2 where "e2 = gen_hazard ''pulse_rings'' (cfg_hazards cfg) 3 (gen_ring R2 (cfg_accent cfg)) (snd d2)"
  have e: "fst e1 = fst e2" "rel (snd e1) (snd e2)"
    unfolding e1_def e2_def
    by (rule draws_agreeD[OF gen_hazard_agree[OF gen_ring_agree[OF m]] d(2)])+
  define f1 where "f1 = gen_hazard ''lightning_nodes'' (cfg_hazards cfg) 5 (gen_lightning R1) (snd e1)"
  define f2 where "f2 = gen_hazard ''lightning_nodes'' (cfg_hazards cfg) 5 (gen_lightning R2) (snd e2)"
  have f: "fst f1 = fst f2"
    unfolding f1_def f2_def
    by (rule draws_agreeD(1)[OF gen_hazard_agree[OF gen_lightning_agree[OF m]] e(2)])
  have "generate R1 level_id cfg g1 =
          \<lparr>lm_level_id = level_id, lm_cfg = cfg, lm_anomalies = fst a1,
           lm_boost_pads = fst p1, lm_asteroids = fst b1,
           lm_pulse_rings = fst e1, lm_lightning = fst f1,
           lm_crystal_shards = fst c1, lm_gravity_corridors = fst d1\<rparr>"
    unfolding generate_def Let_def f1_def e1_def d1_def c1_def b1_def a1_def p1_def
    by (rule refl)
  moreover have "generate R2 level_id cfg g2 =
          \<lparr>lm_level_id = level_id, lm_cfg = cfg, lm_anomalies = fst a2,
           lm_boost_pads = fst p2, lm_asteroids = fst b2,
           lm_pulse_rings = fst e2, lm_lightning = fst f2,
           lm_crystal_shards = fst c2, lm_gravity_corridors = fst d2\<rparr>"
    unfolding generate_def Let_def f2_def e2_def d2_def c2_def b2_def a2_def p2_def
    by (rule refl)
  ultimately show ?thesis
    by (simp only: p(1) a(1) b(1) c(1) d(1) e(1) f)
qed

lemma LevelMap_new_agree:
  assumes "same_methods rel R1 R2"
    and "rel (rng_Random R1 (level_id * 137 + 42)) (rng_Random R2 (level_id * 137 + 42))"
  shows "LevelMap_new R1 level_id = LevelMap_new R2 level_id"
proof (cases "level_lookup level_id")
  case (Inl e)
  then show ?thesis by (simp add: LevelMap_new_def)
next
  case (Inr cfg)
  have "generate R1 level_id cfg (rng_terrain R1 level_id (rng_Random R1 (level_id * 137 + 42)))
      = generate R2 level_id cfg (rng_terrain R2 level_id (rng_Random R2 (level_id * 137 + 42)))"
    by (rule generate_agree[OF assms(1) same_methods_terrain[OF assms]])
  with Inr show ?thesis by (simp add: LevelMap_new_def)
qed

lemma same_methods_refl: "same_methods (=) R R"
  by (simp add: same_methods_def draws_agree_def)

lemma lightning_tick_place:
  "map node_place (lightning_tick u dt k nodes) = map node_place nodes"
  by (induction nodes arbitrary: k) (simp_all add: Let_def node_place_def)

lemma run_updates_place:
  "map node_place (lm_lightning (run_updates ticks lm)) = map node_place (lm_lightning lm)"
  by (induction ticks arbitrary: lm) (simp_all add: LevelMap_update_def lightning_tick_place)

text \<open>
  C2, as the code has it. The layout is determined by the values the generator seeded
  with \<open>level_id * 137 + 42\<close> returns, and by nothing else: for a level id in \<open>0 \<dots> 4\<close>,
  two constructions whose generators agree on every draw from that seed on both succeed,
  and with the same arena: the same anomalies, boost pads, asteroids, crystal shards,
  gravity corridors, pulse rings and lightning nodes. Driven by the same sequence of \<open>dt\<close>
  through \<^verbatim>\<open>LevelMap.update\<close>, the two arenas stay equal in everything but their
  lightning nodes, and the lightning nodes keep their places and radii, whatever the
  process-wide generator returns to the one and to the other. The timers and the on/off
  states of the lightning nodes are not part of the statement.
\<close>

theorem layout_determinism:
  assumes "0 \<le> level_id" "level_id < 5"
    and "same_methods rel R1 R2"
    and "rel (rng_Random R1 (level_id * 137 + 42)) (rng_Random R2 (level_id * 137 + 42))"
    and "map fst ticks1 = map fst ticks2"
  shows "\<exists>lm. LevelMap_new R1 level_id = Inr lm \<and> LevelMap_new R2 level_id = Inr lm \<and>
           without_lightning (run_updates ticks1 lm)
             = without_lightning (run_updates ticks2 lm) \<and>
           map node_place (lm_lightning (run_updates ticks1 lm))
             = map node_place (lm_lightning (run_updates ticks2 lm))"
proof -
  obtain lm where lm: "LevelMap_new R1 level_id = Inr lm"
    using LevelMap_new_levels[OF assms(1,2)] by blast
  have same: "LevelMap_new R2 level_id = Inr lm"
    using LevelMap_new_agree[OF assms(3,4)] lm by simp
  have rest: "without_lightning (run_updates ticks1 lm)
                = without_lightning (run_updates ticks2 lm)"
    by (rule run_updates_seeded[OF assms(5) refl])
  have place: "map node_place (lm_lightning (run_updates ticks1 lm))
                 = map node_place (lm_lightning (run_updates ticks2 lm))"
    by (simp only: run_updates_place)
  from lm same rest place show ?thesis by blast
qed

theorem layout_determinism_witness:
  "LevelMap_new cycle_rng 4 = Inr level4_cycle \<and>
   LevelMap_new traced_rng 4 = Inr level4_cycle \<and>
   without_lightning (run_updates (replicate 31 (0.05, \<lambda>k. 0)) level4_cycle)
     = without_lightning (run_updates (replicate 31 (0.05, \<lambda>k. 1 / 2)) level4_cycle) \<and>
   LevelMap_new const_rng 4 = Inr level4 \<and>
   without_lightning (run_updates (replicate 31 (0.05, \<lambda>k. 0)) level4)
     = without_lightning (run_updates (replicate 31 (0.05, \<lambda>k. 1 / 2)) level4) \<and>
   map node_place (lm_lightning (run_updates (replicate 31 (0.05, \<lambda>k. 0)) level4))
     = map node_place (lm_lightning (run_updates (replicate 31 (0.05, \<lambda>k. 1 / 2)) level4))"
proof -
  have dts: "map fst (replicate 31 (0.05::real, \<lambda>k::nat. 0::real))
               = map fst (replicate 31 (0.05::real, \<lambda>k::nat. 1 / 2 :: real))"
    by simp
  have new_cycle: "LevelMap_new cycle_rng 4 = Inr level4_cycle"
    by (simp add: LevelMap_new_levels level4_cycle_def)
  have methods: "same_methods same_position cycle_rng traced_rng"
    by (simp add: same_methods_def draws_agree_def same_position_def cycle_rng_def traced_rng_def)
  have seeds: "same_position (rng_Random cycle_rng (4 * 137 + 42)) (rng_Random traced_rng (4 * 137 + 42))"
    by (simp add: same_position_def cycle_rng_def traced_rng_def)
  obtain lm where lm: "LevelMap_new cycle_rng 4 = Inr lm" "LevelMap_new traced_rng 4 = Inr lm"
    "without_lightning (run_updates (replicate 31 (0.05, \<lambda>k. 0)) lm)
       = without_lightning (run_updates (replicate 31 (0.05, \<lambda>k. 1 / 2)) lm)"
    using layout_determinism[where level_id = 4 and rel = same_position and ?R1.0 = cycle_rng
        and ?R2.0 = traced_rng, OF _ _ methods seeds dts]
    by auto
  from lm(1) new_cycle have cycle: "lm = level4_cycle" by simp
  have new_const: "LevelMap_new const_rng 4 = Inr level4"
    by (simp add: LevelMap_new_levels level4_def const_rng_def)
  obtain lm' where lm': "LevelMap_new const_rng 4 = Inr lm'"
    "without_lightning (run_updates (replicate 31 (0.05, \<lambda>k. 0)) lm')
       = without_lightning (run_updates (replicate 31 (0.05, \<lambda>k. 1 / 2)) lm')"
    "map node_place (lm_lightning (run_updates (replicate 31 (0.05, \<lambda>k. 0)) lm'))
       = map node_place (lm_lightning (run_updates (replicate 31 (0.05, \<lambda>k. 1 / 2)) lm'))"
    using layout_determinism[where level_id = 4 and rel = "(=)" and ?R1.0 = const_rng
        and ?R2.0 = const_rng, OF _ _ same_methods_refl refl dts]
    by auto
  from lm'(1) new_const have const: "lm' = level4" by simp
  from lm lm' show ?thesis unfolding cycle const by blast
qed

text \<open>
  The layout does follow the draws: the number of boost pads is one more than the first
  value drawn. The generator that returns the lower end of every range gives level 4
  four boost pads, the cycling one gives it seven.
\<close>

lemma rng_repeat_length: "length (fst (rng_repeat n body g)) = n"
  by (induction n arbitrary: g) (simp_all add: Let_def)

lemma generate_pad_count:
  "length (lm_boost_pads (generate R level_id cfg g)) = Suc (nat (fst (rng_randint R g 3 6)))"
  by (simp add: generate_def gen_boost_pads_def Let_def rng_repeat_length)

lemma layout_follows_draws:
  "length (lm_boost_pads level4) = 4 \<and> length (lm_boost_pads level4_cycle) = 7 \<and>
   level4 \<noteq> level4_cycle"
proof -
  have a: "length (lm_boost_pads level4) = 4"
    unfolding level4_def generate_pad_count by (simp add: const_rng_def)
  have b: "length (lm_boost_pads level4_cycle) = 7"
    unfolding level4_cycle_def generate_pad_count by (simp add: cycle_rng_def)
  from a b have "lm_boost_pads level4 \<noteq> lm_boost_pads level4_cycle" by auto
  then have "level4 \<noteq> level4_cycle" by auto
  with a b show ?thesis by simp
qed

lemma level4_lightning: "lm_lightning level4 = [node0, node0, node0, node0, node0]"
  by (simp add: level4_def generate_def Let_def gen_hazard_def LEVELS_def const_rng_def
      gen_lightning_def node0_def eval_nat_numeral SCREEN_W_def SCREEN_H_def)

lemma lightning_run:
  "lm_lightning (run_updates ts lm) =
     foldl (\<lambda>nodes t. lightning_tick (snd t) (fst t) 0 nodes) (lm_lightning lm) ts"
  by (induction ts arbitrary: lm) (simp_all add: LevelMap_update_def)

lemma run31_zero:
  "foldl (\<lambda>nodes t. lightning_tick (snd t) (fst t) 0 nodes) [node0, node0, node0, node0, node0]
     (replicate 31 (0.05, \<lambda>k. 0))
   = replicate 5 (node0\<lparr>ln_timer := 0.35, ln_active := True\<rparr>)"
  by (simp add: eval_nat_numeral node0_def py_uniform_def Let_def)

lemma run31_half:
  "foldl (\<lambda>nodes t. lightning_tick (snd t) (fst t) 0 nodes) [node0, node0, node0, node0, node0]
     (replicate 31 (0.05, \<lambda>k. 1 / 2))
   = replicate 5 (node0\<lparr>ln_timer := 1.4, ln_active := True\<rparr>)"
  by (simp add: eval_nat_numeral node0_def py_uniform_def Let_def)

text \<open>
  The claim as stated fails on the evolution: two arenas of level 4 built alike and
  driven by the same 31 ticks of 0.05 s differ in their lightning nodes when the
  process-wide generator returns 0 to the one and 1/2 to the other (the nodes toggle in
  tick 30 and take the timers 0.4 and 1.45).
\<close>

theorem lightning_unseeded_counterexample:
  "LevelMap_new const_rng 4 = Inr level4 \<and>
   lm_lightning (run_updates (replicate 31 (0.05, \<lambda>k. 0)) level4)
     = replicate 5 (node0\<lparr>ln_timer := 0.35, ln_active := True\<rparr>) \<and>
   lm_lightning (run_updates (replicate 31 (0.05, \<lambda>k. 1 / 2)) level4)
     = replicate 5 (node0\<lparr>ln_timer := 1.4, ln_active := True\<rparr>) \<and>
   run_updates (replicate 31 (0.05, \<lambda>k. 0)) level4
     \<noteq> run_updates (replicate 31 (0.05, \<lambda>k. 1 / 2)) level4"
proof -
  have new: "LevelMap_new const_rng 4 = Inr level4"
    by (simp add: LevelMap_new_levels level4_def const_rng_def)
  have a: "lm_lightning (run_updates (replicate 31 (0.05, \<lambda>k. 0)) level4)
     = replicate 5 (node0\<lparr>ln_timer := 0.35, ln_active := True\<rparr>)"
    unfolding lightning_run level4_lightning by (rule run31_zero)
  have b: "lm_lightning (run_updates (replicate 31 (0.05, \<lambda>k. 1 / 2)) level4)
     = replicate 5 (node0\<lparr>ln_timer := 1.4, ln_active := True\<rparr>)"
    unfolding lightning_run level4_lightning by (rule run31_half)
  have "lm_lightning (run_updates (replicate 31 (0.05, \<lambda>k. 0)) level4)
     \<noteq> lm_lightning (run_updates (replicate 31 (0.05, \<lambda>k. 1 / 2)) level4)"
    unfolding a b by (simp add: eval_nat_numeral node0_def)
  then have "run_updates (replicate 31 (0.05, \<lambda>k. 0)) level4
     \<noteq> run_updates (replicate 31 (0.05, \<lambda>k. 1 / 2)) level4"
    by auto
  with new a b show ?thesis by simp
qed

end
